theory Spec2Isabelle
  imports Main "HOL-Library.Word" "HOL-Library.AList"
begin

section \<open>Data model (types.go, config.go)\<close>

text \<open>
  Instants of \<^verbatim>\<open>time.Time\<close> are points of a linear scale; \<open>0\<close> is the zero
  instant (the one \<^verbatim>\<open>IsZero\<close> recognises). A \<^verbatim>\<open>time.Duration\<close> is a number of
  nanoseconds. Go's \<^verbatim>\<open>int\<close> (64 bits wide) and \<^verbatim>\<open>int64\<close> are carried by \<open>int\<close>.
  The package adds them in two places. The retry counter and \<^verbatim>\<open>MaxRetries + 1\<close>
  leave the 64-bit range only for \<^verbatim>\<open>MaxRetries\<close> = \<open>2 ^ 63 - 1\<close> and after
  \<open>2 ^ 63\<close> failed attempts, and are added as they stand. The sum
  \<^verbatim>\<open>Offset + len(entries)\<close> can leave the range for an offset near its end, and is
  wrapped as the machine wraps it: \<open>wrap_int64 i\<close> is the 64-bit two's-complement value
  of a computation whose exact result is \<open>i\<close>.
\<close>

type_synonym time = int
type_synonym duration = int

definition wrap_int64 :: "int \<Rightarrow> int" where
  "wrap_int64 i = (i + 2 ^ 63) mod 2 ^ 64 - 2 ^ 63"

text \<open>\<^verbatim>\<open>primitive.ObjectID\<close> is \<^verbatim>\<open>[12]byte\<close>; the zero identifier is twelve zero bytes.\<close>

type_synonym ObjectID = "8 word list"

definition NilObjectID :: ObjectID where
  "NilObjectID = [0, 0, 0, 0, 0, 0, 0, 0, 0, 0, 0, 0]"

definition ObjectID_IsZero :: "ObjectID \<Rightarrow> bool" where
  "ObjectID_IsZero oid = (oid = NilObjectID)"

definition Time_IsZero :: "time \<Rightarrow> bool" where
  "Time_IsZero t = (t = 0)"

text \<open>\<^verbatim>\<open>ActorType\<close> and \<^verbatim>\<open>AuditAction\<close> are string types with named constants.\<close>

type_synonym ActorType = string
type_synonym AuditAction = string

definition ActorTypeUser :: ActorType where "ActorTypeUser = ''user''"
definition ActorTypeSystem :: ActorType where "ActorTypeSystem = ''system''"
definition ActorTypeService :: ActorType where "ActorTypeService = ''service''"
definition ActorTypeAPI :: ActorType where "ActorTypeAPI = ''api''"
definition ActorTypeAdmin :: ActorType where "ActorTypeAdmin = ''admin''"

definition ActionCreate :: AuditAction where "ActionCreate = ''create''"
definition ActionUpdate :: AuditAction where "ActionUpdate = ''update''"
definition ActionDelete :: AuditAction where "ActionDelete = ''delete''"
definition ActionLogin :: AuditAction where "ActionLogin = ''login''"
definition ActionLogout :: AuditAction where "ActionLogout = ''logout''"
definition ActionView :: AuditAction where "ActionView = ''view''"
definition ActionExport :: AuditAction where "ActionExport = ''export''"

text \<open>A value of type \<^verbatim>\<open>any\<close>, as far as field changes and metadata carry one.\<close>

datatype any = AnyNil | AnyString string | AnyInt int | AnyBool bool

record Actor =
  actor_ID :: string
  actor_Type :: ActorType
  actor_Name :: string
  actor_SessionID :: string

record AuditResource =
  res_Type :: string
  res_ID :: string
  res_Name :: string

record FieldChange =
  Field :: string
  OldValue :: any
  NewValue :: any

record AuditEntry =
  ID :: ObjectID
  Timestamp :: time
  Action :: AuditAction
  Actor :: Actor
  Resource :: AuditResource
  Changes :: "FieldChange list"
  Metadata :: "string \<rightharpoonup> any"
  IPAddress :: string
  UserAgent :: string
  Success :: bool
  ErrorMsg :: string

text \<open>
  \<^verbatim>\<open>AuditQuery\<close>: the pointer fields (\<^verbatim>\<open>*time.Time\<close>, \<^verbatim>\<open>*bool\<close>) are options,
  \<open>None\<close> for \<^verbatim>\<open>nil\<close>. The field \<^verbatim>\<open>Success\<close> of the query is \<open>QSuccess\<close> here,
  since the entry has a field of that name.
\<close>

record AuditQuery =
  ActorID :: string
  ActorType :: ActorType
  SessionID :: string
  Actions :: "AuditAction list"
  ResourceType :: string
  ResourceID :: string
  StartTime :: "time option"
  EndTime :: "time option"
  QSuccess :: "bool option"
  Limit :: int
  Offset :: int

record AuditQueryResult =
  Entries :: "AuditEntry list"
  Total :: int
  HasMore :: bool

record Config =
  MongoURI :: string
  DatabaseName :: string
  CollectionName :: string
  MaxPoolSize :: nat
  MinPoolSize :: nat
  ConnectTimeout :: duration
  MaxRetries :: int
  RetryDelay :: duration
  BatchSize :: int
  EnableIndexes :: bool

definition second :: duration where
  "second = 1000000000"

definition DefaultConfig :: Config where
  "DefaultConfig =
     \<lparr>MongoURI = ''mongodb://localhost:27017'', DatabaseName = ''audit'',
      CollectionName = ''audit_logs'', MaxPoolSize = 100, MinPoolSize = 5,
      ConnectTimeout = 10 * second, MaxRetries = 3, RetryDelay = second,
      BatchSize = 1000, EnableIndexes = True\<rparr>"

section \<open>Errors\<close>

text \<open>
  A Go \<^verbatim>\<open>error\<close> value. \<open>ErrNew m\<close> is an error with the fixed message \<open>m\<close>
  (\<^verbatim>\<open>fmt.Errorf\<close> without verbs, or an error the driver made), \<open>ErrValue p v\<close> is
  \<^verbatim>\<open>fmt.Errorf("p: %s", v)\<close>, \<open>ErrWrap p e\<close> is \<^verbatim>\<open>fmt.Errorf("p: %w", e)\<close>, and
  \<open>ErrAttempts n e\<close> is
  \<^verbatim>\<open>fmt.Errorf("failed to insert audit entry after %d attempts: %w", n, e)\<close>, where
  \<open>e\<close> may still be \<^verbatim>\<open>nil\<close>. The others are the sentinels of the driver and of
  builder.go.
\<close>

datatype error =
    ErrNew string
  | ErrValue string string
  | ErrWrap string error
  | ErrAttempts int "error option"
  | ErrNoDocuments
  | ErrInvalidHex
  | ErrNoServiceConfigured

text \<open>The text \<^verbatim>\<open>err.Error()\<close> returns.\<close>

definition digit_char :: "nat \<Rightarrow> char" where
  "digit_char d = char_of (48 + d)"

fun show_nat :: "nat \<Rightarrow> string" where
  "show_nat n = (if n < 10 then [digit_char n] else show_nat (n div 10) @ [digit_char (n mod 10)])"

declare show_nat.simps [simp del]

definition show_int :: "int \<Rightarrow> string" where
  "show_int i = (if i < 0 then CHR ''-'' # show_nat (nat (- i)) else show_nat (nat i))"

fun Error_text :: "error \<Rightarrow> string" where
  "Error_text (ErrNew m) = m"
| "Error_text (ErrValue p v) = p @ '': '' @ v"
| "Error_text (ErrWrap p e) = p @ '': '' @ Error_text e"
| "Error_text (ErrAttempts n None) =
     ''failed to insert audit entry after '' @ show_int n @ '' attempts: %!w(<nil>)''"
| "Error_text (ErrAttempts n (Some e)) =
     ''failed to insert audit entry after '' @ show_int n @ '' attempts: '' @ Error_text e"
| "Error_text ErrNoDocuments = ''mongo: no documents in result''"
| "Error_text ErrInvalidHex = ''the provided hex string is not a valid ObjectID''"
| "Error_text ErrNoServiceConfigured =
     ''no audit service configured: use SetDefaultService() or NewAuditBuilderWithService()''"

section \<open>The entry builder (builder.go)\<close>

text \<open>
  The builder holds the entry under construction; each setter returns the builder
  with the entry updated. The bound service plays no part in the setters and is a
  parameter of the record.
\<close>

record 'svc AuditBuilder =
  entry :: AuditEntry
  service :: "'svc option"

definition AuditBuilder_Action :: "AuditAction \<Rightarrow> 'svc AuditBuilder \<Rightarrow> 'svc AuditBuilder" where
  "AuditBuilder_Action action b = b\<lparr>entry := (entry b)\<lparr>Action := action\<rparr>\<rparr>"

definition AuditBuilder_Actor ::
  "string \<Rightarrow> ActorType \<Rightarrow> string \<Rightarrow> 'svc AuditBuilder \<Rightarrow> 'svc AuditBuilder" where
  "AuditBuilder_Actor actorID actorType actorName b =
     b\<lparr>entry := (entry b)\<lparr>Actor :=
       \<lparr>actor_ID = actorID, actor_Type = actorType, actor_Name = actorName,
        actor_SessionID = ''''\<rparr>\<rparr>\<rparr>"

definition AuditBuilder_Resource ::
  "string \<Rightarrow> string \<Rightarrow> string \<Rightarrow> 'svc AuditBuilder \<Rightarrow> 'svc AuditBuilder" where
  "AuditBuilder_Resource resourceType resourceID resourceName b =
     b\<lparr>entry := (entry b)\<lparr>Resource :=
       \<lparr>res_Type = resourceType, res_ID = resourceID, res_Name = resourceName\<rparr>\<rparr>\<rparr>"

definition AuditBuilder_Success :: "bool \<Rightarrow> 'svc AuditBuilder \<Rightarrow> 'svc AuditBuilder" where
  "AuditBuilder_Success success b = b\<lparr>entry := (entry b)\<lparr>Success := success\<rparr>\<rparr>"

definition AuditBuilder_Error :: "error option \<Rightarrow> 'svc AuditBuilder \<Rightarrow> 'svc AuditBuilder" where
  "AuditBuilder_Error err b =
     (case err of
        Some e \<Rightarrow> b\<lparr>entry := (entry b)\<lparr>ErrorMsg := Error_text e, Success := False\<rparr>\<rparr>
      | None \<Rightarrow> b)"

definition AuditBuilder_Build :: "'svc AuditBuilder \<Rightarrow> AuditEntry" where
  "AuditBuilder_Build b = entry b"

text \<open>
  \<^verbatim>\<open>NewAuditBuilder\<close>: a fresh identifier and the current time come from the
  runtime and are parameters here; every other field has its zero value.
\<close>

definition NewAuditBuilderWithService ::
  "ObjectID \<Rightarrow> time \<Rightarrow> 'svc option \<Rightarrow> 'svc AuditBuilder" where
  "NewAuditBuilderWithService newID now svc =
     \<lparr>entry =
        \<lparr>ID = newID, Timestamp = now, Action = '''',
         Actor = \<lparr>actor_ID = '''', actor_Type = '''', actor_Name = '''', actor_SessionID = ''''\<rparr>,
         Resource = \<lparr>res_Type = '''', res_ID = '''', res_Name = ''''\<rparr>,
         Changes = [], Metadata = Map.empty, IPAddress = '''', UserAgent = '''',
         Success = False, ErrorMsg = ''''\<rparr>,
      service = svc\<rparr>"

section \<open>The document store, as the repository sees it\<close>

text \<open>
  A \<^verbatim>\<open>bson.M\<close> document is a finite map from keys to values; it is kept as an
  association list with distinct keys, read through \<open>map_of\<close> and written with
  \<open>AList.update\<close> (which replaces the value of a key that is present and adds the
  key otherwise). The values are the ones this package puts into a filter.
\<close>

datatype bson =
    BString string
  | BBool bool
  | BTime time
  | BObjectID ObjectID
  | BStrings "string list"
  | BDoc "(string \<times> bson) list"

type_synonym bsonM = "(string \<times> bson) list"

text \<open>\<^verbatim>\<open>options.FindOptions\<close>: the sort specification, and limit and skip when set.\<close>

record FindOptions =
  opt_Sort :: "(string \<times> int) list"
  opt_Limit :: "int option"
  opt_Skip :: "int option"

text \<open>
  A \<^verbatim>\<open>context.Context\<close>, reduced to what \<^verbatim>\<open>ctx.Err()\<close> returns: \<open>None\<close> while
  the context is live, the cancellation error once it is cancelled or past its
  deadline.
\<close>

record Context =
  ctx_Err :: "error option"

definition Background :: Context where
  "Background = \<lparr>ctx_Err = None\<rparr>"

definition Canceled :: Context where
  "Canceled = \<lparr>ctx_Err = Some (ErrNew ''context canceled'')\<rparr>"

text \<open>
  What the package does to the outside world, in the order it does it: the calls of
  the driver with their arguments, and the calls of \<^verbatim>\<open>time.Sleep\<close>.
\<close>

datatype event =
    EvInsertOne AuditEntry
  | EvSleep duration
  | EvCountDocuments bsonM
  | EvFind bsonM FindOptions
  | EvFindOne bsonM

text \<open>
  A \<^verbatim>\<open>mongo.Cursor\<close> is represented by what \<^verbatim>\<open>cursor.All\<close> will return. The
  collection handle is the driver's answers: \<open>InsertOne c ctx e k\<close> is the answer to
  the call that follows \<open>k\<close> earlier \<^verbatim>\<open>InsertOne\<close> calls of the same \<^verbatim>\<open>Insert\<close>
  (\<open>None\<close> is a \<^verbatim>\<open>nil\<close> error), so a store may fail some attempts and accept a
  later one.
\<close>

type_synonym cursor = "error + AuditEntry list"

record collection =
  InsertOne :: "Context \<Rightarrow> AuditEntry \<Rightarrow> nat \<Rightarrow> error option"
  CountDocuments :: "Context \<Rightarrow> bsonM \<Rightarrow> error + int"
  Find :: "Context \<Rightarrow> bsonM \<Rightarrow> FindOptions \<Rightarrow> error + cursor"
  FindOne :: "Context \<Rightarrow> bsonM \<Rightarrow> error + AuditEntry"

text \<open>The current time and a fresh identifier, as the runtime hands them out.\<close>

record runtime =
  Now :: time
  NewObjectID :: ObjectID

record mongoRepository =
  collection :: collection
  config :: Config

section \<open>The repository (mongo\_repo.go)\<close>

text \<open>
  The retry loop of \<^verbatim>\<open>Insert\<close>: \<open>attempt\<close> is the loop counter and \<open>err\<close> the
  variable \<^verbatim>\<open>err\<close>, \<^verbatim>\<open>nil\<close> before the first attempt. The result is the trace of
  driver calls and sleeps, and the error returned.
\<close>

function insert_loop ::
  "mongoRepository \<Rightarrow> Context \<Rightarrow> AuditEntry \<Rightarrow> int \<Rightarrow> error option \<Rightarrow> event list \<times> error option"
where
  "insert_loop r ctx ent attempt err =
     (if attempt \<le> MaxRetries (config r) then
        (case InsertOne (collection r) ctx ent (nat attempt) of
           None \<Rightarrow> ([EvInsertOne ent], None)
         | Some err' \<Rightarrow>
             (case insert_loop r ctx ent (attempt + 1) (Some err') of
                (tr, res) \<Rightarrow>
                  (EvInsertOne ent #
                     (if attempt < MaxRetries (config r) then [EvSleep (RetryDelay (config r))]
                      else []) @ tr,
                   res)))
      else ([], Some (ErrAttempts (MaxRetries (config r) + 1) err)))"
  by pat_completeness auto
termination
  by (relation "measure (\<lambda>(r, ctx, ent, attempt, err). nat (MaxRetries (config r) + 1 - attempt))")
     auto

declare insert_loop.simps [simp del]

definition mongo_Insert ::
  "runtime \<Rightarrow> mongoRepository \<Rightarrow> Context \<Rightarrow> AuditEntry \<Rightarrow> event list \<times> error option" where
  "mongo_Insert rt r ctx ent =
     (let ent = (if Time_IsZero (Timestamp ent) then ent\<lparr>Timestamp := Now rt\<rparr> else ent);
          ent = (if ObjectID_IsZero (ID ent) then ent\<lparr>ID := NewObjectID rt\<rparr> else ent)
      in insert_loop r ctx ent 0 None)"

definition buildFilter :: "AuditQuery \<Rightarrow> bsonM" where
  "buildFilter query =
     (let flt = [];
          flt = (if ActorID query \<noteq> '''' then
                   AList.update ''actor.id'' (BString (ActorID query)) flt else flt);
          flt = (if ActorType query \<noteq> '''' then
                   AList.update ''actor.type'' (BString (ActorType query)) flt else flt);
          flt = (if SessionID query \<noteq> '''' then
                   AList.update ''actor.session_id'' (BString (SessionID query)) flt else flt);
          flt = (if length (Actions query) > 0 then
                   AList.update ''action'' (BDoc [(''$in'', BStrings (Actions query))]) flt
                 else flt);
          flt = (if ResourceType query \<noteq> '''' then
                   AList.update ''resource.type'' (BString (ResourceType query)) flt else flt);
          flt = (if ResourceID query \<noteq> '''' then
                   AList.update ''resource.id'' (BString (ResourceID query)) flt else flt);
          flt = (case QSuccess query of
                   Some b \<Rightarrow> AList.update ''success'' (BBool b) flt
                 | None \<Rightarrow> flt);
          flt = (if StartTime query \<noteq> None \<or> EndTime query \<noteq> None then
                   (let timeFilter = [];
                        timeFilter = (case StartTime query of
                                        Some t \<Rightarrow> AList.update ''$gte'' (BTime t) timeFilter
                                      | None \<Rightarrow> timeFilter);
                        timeFilter = (case EndTime query of
                                        Some t \<Rightarrow> AList.update ''$lte'' (BTime t) timeFilter
                                      | None \<Rightarrow> timeFilter)
                    in AList.update ''timestamp'' (BDoc timeFilter) flt)
                 else flt)
      in flt)"

definition mongo_FindByQuery ::
  "mongoRepository \<Rightarrow> Context \<Rightarrow> AuditQuery \<Rightarrow> event list \<times> (error + AuditQueryResult)" where
  "mongo_FindByQuery r ctx query =
     (let flt = buildFilter query in
      case CountDocuments (collection r) ctx flt of
        Inl err \<Rightarrow> ([EvCountDocuments flt], Inl (ErrWrap ''failed to count documents'' err))
      | Inr total' \<Rightarrow>
          (let opts = \<lparr>opt_Sort = [(''timestamp'', - 1)], opt_Limit = None, opt_Skip = None\<rparr>;
               opts = (if Limit query > 0 then opts\<lparr>opt_Limit := Some (Limit query)\<rparr> else opts);
               opts = (if Offset query > 0 then opts\<lparr>opt_Skip := Some (Offset query)\<rparr> else opts);
               tr = [EvCountDocuments flt, EvFind flt opts]
           in case Find (collection r) ctx flt opts of
                Inl err \<Rightarrow> (tr, Inl (ErrWrap ''failed to execute query'' err))
              | Inr cur \<Rightarrow>
                  (case cur of
                     Inl err \<Rightarrow> (tr, Inl (ErrWrap ''failed to decode results'' err))
                   | Inr entries \<Rightarrow>
                       (let hasMore =
                              (Limit query > 0 \<and>
                               wrap_int64 (Offset query + int (length entries)) < total')
                        in (tr, Inr \<lparr>Entries = entries, Total = total', HasMore = hasMore\<rparr>)))))"

text \<open>
  \<^verbatim>\<open>primitive.ObjectIDFromHex\<close> of the driver: a string of exactly 24 hexadecimal
  digits (either case) decodes to its twelve bytes; anything else is an error.
\<close>

definition hex_val :: "char \<Rightarrow> nat option" where
  "hex_val c =
     (let n = (of_char c :: nat) in
      if 48 \<le> n \<and> n \<le> 57 then Some (n - 48)
      else if 97 \<le> n \<and> n \<le> 102 then Some (n - 87)
      else if 65 \<le> n \<and> n \<le> 70 then Some (n - 55)
      else None)"

fun hex_decode :: "string \<Rightarrow> 8 word list option" where
  "hex_decode [] = Some []"
| "hex_decode [c] = None"
| "hex_decode (c1 # c2 # cs) =
     (case (hex_val c1, hex_val c2) of
        (Some a, Some b) \<Rightarrow>
          (case hex_decode cs of Some bs \<Rightarrow> Some (of_nat (16 * a + b) # bs) | None \<Rightarrow> None)
      | _ \<Rightarrow> None)"

definition ObjectIDFromHex :: "string \<Rightarrow> error + ObjectID" where
  "ObjectIDFromHex s =
     (if length s \<noteq> 24 then Inl ErrInvalidHex
      else case hex_decode s of
             None \<Rightarrow> Inl (ErrNew ''encoding/hex: invalid byte'')
           | Some oid \<Rightarrow> Inr oid)"

text \<open>
  \<^verbatim>\<open>FindByID\<close> returns a pointer and an error: \<open>Inl e\<close> is \<^verbatim>\<open>(nil, e)\<close>,
  \<open>Inr None\<close> is \<^verbatim>\<open>(nil, nil)\<close> and \<open>Inr (Some x)\<close> is \<^verbatim>\<open>(&x, nil)\<close>.
\<close>

definition mongo_FindByID ::
  "mongoRepository \<Rightarrow> Context \<Rightarrow> string \<Rightarrow> event list \<times> (error + AuditEntry option)" where
  "mongo_FindByID r ctx id' =
     (case ObjectIDFromHex id' of
        Inl err \<Rightarrow> ([], Inl (ErrWrap ''invalid ID format'' err))
      | Inr objectID \<Rightarrow>
          (let flt = [(''_id'', BObjectID objectID)] in
           case FindOne (collection r) ctx flt of
             Inl err \<Rightarrow>
               if err = ErrNoDocuments then ([EvFindOne flt], Inr None)
               else ([EvFindOne flt], Inl (ErrWrap ''failed to find audit entry'' err))
           | Inr found \<Rightarrow> ([EvFindOne flt], Inr (Some found))))"

definition mongo_FindByResource ::
  "mongoRepository \<Rightarrow> Context \<Rightarrow> string \<Rightarrow> string \<Rightarrow> int \<Rightarrow> event list \<times> (error + AuditEntry list)"
where
  "mongo_FindByResource r ctx resourceType resourceID limit =
     (let flt = [(''resource.type'', BString resourceType), (''resource.id'', BString resourceID)];
          opts = \<lparr>opt_Sort = [(''timestamp'', - 1)], opt_Limit = None, opt_Skip = None\<rparr>;
          opts = (if limit > 0 then opts\<lparr>opt_Limit := Some limit\<rparr> else opts)
      in case Find (collection r) ctx flt opts of
           Inl err \<Rightarrow> ([EvFind flt opts], Inl (ErrWrap ''failed to find resource history'' err))
         | Inr cur \<Rightarrow>
             (case cur of
                Inl err \<Rightarrow> ([EvFind flt opts], Inl (ErrWrap ''failed to decode results'' err))
              | Inr entries \<Rightarrow> ([EvFind flt opts], Inr entries)))"

definition mongo_FindByActor ::
  "mongoRepository \<Rightarrow> Context \<Rightarrow> string \<Rightarrow> ActorType \<Rightarrow> int \<Rightarrow> event list \<times> (error + AuditEntry list)"
where
  "mongo_FindByActor r ctx actorID actorType limit =
     (let flt = [(''actor.id'', BString actorID)];
          flt = (if actorType \<noteq> '''' then AList.update ''actor.type'' (BString actorType) flt
                 else flt);
          opts = \<lparr>opt_Sort = [(''timestamp'', - 1)], opt_Limit = None, opt_Skip = None\<rparr>;
          opts = (if limit > 0 then opts\<lparr>opt_Limit := Some limit\<rparr> else opts)
      in case Find (collection r) ctx flt opts of
           Inl err \<Rightarrow> ([EvFind flt opts], Inl (ErrWrap ''failed to find actor history'' err))
         | Inr cur \<Rightarrow>
             (case cur of
                Inl err \<Rightarrow> ([EvFind flt opts], Inl (ErrWrap ''failed to decode results'' err))
              | Inr entries \<Rightarrow> ([EvFind flt opts], Inr entries)))"

text \<open>
  The interface \<^verbatim>\<open>AuditRepository\<close> (the operations the service uses): every
  operation returns what it did to the outside world, as a list of events of a type
  the implementation chooses, and its result.
\<close>

record 'ev AuditRepository =
  Insert :: "Context \<Rightarrow> AuditEntry \<Rightarrow> 'ev list \<times> error option"
  FindByQuery :: "Context \<Rightarrow> AuditQuery \<Rightarrow> 'ev list \<times> (error + AuditQueryResult)"
  FindByID :: "Context \<Rightarrow> string \<Rightarrow> 'ev list \<times> (error + AuditEntry option)"
  FindByResource :: "Context \<Rightarrow> string \<Rightarrow> string \<Rightarrow> int \<Rightarrow> 'ev list \<times> (error + AuditEntry list)"
  FindByActor :: "Context \<Rightarrow> string \<Rightarrow> ActorType \<Rightarrow> int \<Rightarrow> 'ev list \<times> (error + AuditEntry list)"

text \<open>The methods of \<^verbatim>\<open>*mongoRepository\<close>, as an \<^verbatim>\<open>AuditRepository\<close>.\<close>

definition mongoRepository_methods :: "runtime \<Rightarrow> mongoRepository \<Rightarrow> event AuditRepository" where
  "mongoRepository_methods rt r =
     \<lparr>Insert = mongo_Insert rt r, FindByQuery = mongo_FindByQuery r,
      FindByID = mongo_FindByID r, FindByResource = mongo_FindByResource r,
      FindByActor = mongo_FindByActor r\<rparr>"

section \<open>The audit service (service.go)\<close>

record 'ev auditService =
  repo :: "'ev AuditRepository"

definition valid_actor_types :: "ActorType list" where
  "valid_actor_types =
     [ActorTypeUser, ActorTypeSystem, ActorTypeService, ActorTypeAPI, ActorTypeAdmin]"

definition valid_actions :: "AuditAction list" where
  "valid_actions =
     [ActionCreate, ActionUpdate, ActionDelete, ActionLogin, ActionLogout, ActionView,
      ActionExport]"

text \<open>\<open>None\<close> is the \<^verbatim>\<open>nil\<close> error: the entry is valid.\<close>

definition validateAuditEntry :: "AuditEntry \<Rightarrow> error option" where
  "validateAuditEntry ent =
     (if Action ent = '''' then Some (ErrNew ''action cannot be empty'')
      else if actor_ID (Actor ent) = '''' then Some (ErrNew ''actor ID cannot be empty'')
      else if actor_Type (Actor ent) = '''' then Some (ErrNew ''actor type cannot be empty'')
      else if res_Type (Resource ent) = '''' then Some (ErrNew ''resource type cannot be empty'')
      else if res_ID (Resource ent) = '''' then Some (ErrNew ''resource ID cannot be empty'')
      else if actor_Type (Actor ent) \<notin> set valid_actor_types then
        Some (ErrValue ''invalid actor type'' (actor_Type (Actor ent)))
      else if Action ent \<notin> set valid_actions then
        Some (ErrValue ''invalid action'' (Action ent))
      else None)"

text \<open>The loop over \<^verbatim>\<open>query.Actions\<close>: the first action outside the enum is the error.\<close>

fun validateActions :: "AuditAction list \<Rightarrow> error option" where
  "validateActions [] = None"
| "validateActions (action # rest) =
     (if action \<in> set valid_actions then validateActions rest
      else Some (ErrValue ''invalid action'' action))"

definition validateAuditQuery :: "AuditQuery \<Rightarrow> error option" where
  "validateAuditQuery query =
     (if Limit query < 0 then Some (ErrNew ''limit cannot be negative'')
      else if Offset query < 0 then Some (ErrNew ''offset cannot be negative'')
      else if (case (StartTime query, EndTime query) of
                 (Some st, Some en) \<Rightarrow> st > en
               | _ \<Rightarrow> False) then
        Some (ErrNew ''start time cannot be after end time'')
      else if ActorType query \<noteq> '''' \<and> ActorType query \<notin> set valid_actor_types then
        Some (ErrValue ''invalid actor type'' (ActorType query))
      else validateActions (Actions query))"

definition LogAction :: "'ev auditService \<Rightarrow> Context \<Rightarrow> AuditEntry \<Rightarrow> 'ev list \<times> error option" where
  "LogAction s ctx ent =
     (case validateAuditEntry ent of
        Some err \<Rightarrow> ([], Some (ErrWrap ''invalid audit entry'' err))
      | None \<Rightarrow> Insert (repo s) ctx ent)"

definition GetHistory ::
  "'ev auditService \<Rightarrow> Context \<Rightarrow> AuditQuery \<Rightarrow> 'ev list \<times> (error + AuditQueryResult)" where
  "GetHistory s ctx query =
     (case validateAuditQuery query of
        Some err \<Rightarrow> ([], Inl (ErrWrap ''invalid query'' err))
      | None \<Rightarrow> FindByQuery (repo s) ctx query)"

definition GetByID ::
  "'ev auditService \<Rightarrow> Context \<Rightarrow> string \<Rightarrow> 'ev list \<times> (error + AuditEntry option)" where
  "GetByID s ctx id' =
     (if id' = '''' then ([], Inl (ErrNew ''id cannot be empty''))
      else FindByID (repo s) ctx id')"

definition GetResourceHistory ::
  "'ev auditService \<Rightarrow> Context \<Rightarrow> string \<Rightarrow> string \<Rightarrow> int \<Rightarrow> 'ev list \<times> (error + AuditEntry list)"
where
  "GetResourceHistory s ctx resourceType resourceID limit =
     (if resourceType = '''' then ([], Inl (ErrNew ''resource type cannot be empty''))
      else if resourceID = '''' then ([], Inl (ErrNew ''resource ID cannot be empty''))
      else if limit < 0 then ([], Inl (ErrNew ''limit cannot be negative''))
      else FindByResource (repo s) ctx resourceType resourceID limit)"

definition GetActorHistory ::
  "'ev auditService \<Rightarrow> Context \<Rightarrow> string \<Rightarrow> ActorType \<Rightarrow> int \<Rightarrow> 'ev list \<times> (error + AuditEntry list)"
where
  "GetActorHistory s ctx actorID actorType limit =
     (if actorID = '''' then ([], Inl (ErrNew ''actor ID cannot be empty''))
      else if limit < 0 then ([], Inl (ErrNew ''limit cannot be negative''))
      else FindByActor (repo s) ctx actorID actorType limit)"

text \<open>\<^verbatim>\<open>AuditBuilder.Log\<close>: the built entry goes to the bound service, if there is one.\<close>

definition AuditBuilder_Log ::
  "'ev auditService AuditBuilder \<Rightarrow> Context \<Rightarrow> 'ev list \<times> error option" where
  "AuditBuilder_Log b ctx =
     (case service b of
        None \<Rightarrow> ([], Some ErrNoServiceConfigured)
      | Some s \<Rightarrow> LogAction s ctx (entry b))"

text \<open>\<^verbatim>\<open>NewServiceWithRepository\<close> over the document-store repository.\<close>

definition mongo_service :: "runtime \<Rightarrow> mongoRepository \<Rightarrow> event auditService" where
  "mongo_service rt r = \<lparr>repo = mongoRepository_methods rt r\<rparr>"

section \<open>A document store that keeps its contract\<close>

text \<open>
  The store is an external collaborator; this is the contract the package relies on
  (count with a filter, find with filter, sort, skip and limit, find one), over a
  collection holding the documents \<open>ds\<close>. A document carries the entry's fields
  under their \<^verbatim>\<open>bson\<close> names; a field tagged \<^verbatim>\<open>omitempty\<close> is absent when empty.
\<close>

definition field_value :: "string \<Rightarrow> AuditEntry \<Rightarrow> bson option" where
  "field_value k d =
     (if k = ''_id'' then (if ObjectID_IsZero (ID d) then None else Some (BObjectID (ID d)))
      else if k = ''timestamp'' then Some (BTime (Timestamp d))
      else if k = ''action'' then Some (BString (Action d))
      else if k = ''actor.id'' then Some (BString (actor_ID (Actor d)))
      else if k = ''actor.type'' then Some (BString (actor_Type (Actor d)))
      else if k = ''actor.session_id'' then
        (if actor_SessionID (Actor d) = '''' then None
         else Some (BString (actor_SessionID (Actor d))))
      else if k = ''resource.type'' then Some (BString (res_Type (Resource d)))
      else if k = ''resource.id'' then Some (BString (res_ID (Resource d)))
      else if k = ''success'' then Some (BBool (Success d))
      else None)"

text \<open>
  A clause with an operator document holds when each operator does (\<^verbatim>\<open>$in\<close>: the
  field is one of the listed strings; \<^verbatim>\<open>$gte\<close>, \<^verbatim>\<open>$lte\<close>: the field is a time not
  before, not after the bound); any other clause holds when the field is present and
  equal to the value. A filter matches when all its clauses hold.
\<close>

fun op_holds :: "bson option \<Rightarrow> string \<times> bson \<Rightarrow> bool" where
  "op_holds (Some (BString s)) (opr, BStrings xs) = (opr = ''$in'' \<and> s \<in> set xs)"
| "op_holds (Some (BTime t)) (opr, BTime b) =
     ((opr = ''$gte'' \<and> b \<le> t) \<or> (opr = ''$lte'' \<and> t \<le> b))"
| "op_holds v c = False"

fun clause_holds :: "AuditEntry \<Rightarrow> string \<times> bson \<Rightarrow> bool" where
  "clause_holds d (k, BDoc ops) = list_all (op_holds (field_value k d)) ops"
| "clause_holds d (k, v) = (field_value k d = Some v)"

definition doc_matches :: "bsonM \<Rightarrow> AuditEntry \<Rightarrow> bool" where
  "doc_matches flt d = list_all (clause_holds d) flt"

text \<open>Newest first: descending by timestamp, entries of equal timestamp in stored order.\<close>

definition newest_first :: "AuditEntry list \<Rightarrow> AuditEntry list" where
  "newest_first xs = sort_key (\<lambda>d. - Timestamp d) xs"

definition store_sort :: "(string \<times> int) list \<Rightarrow> AuditEntry list \<Rightarrow> AuditEntry list" where
  "store_sort spec xs = (if spec = [(''timestamp'', - 1)] then newest_first xs else xs)"

definition store_skip :: "int option \<Rightarrow> AuditEntry list \<Rightarrow> AuditEntry list" where
  "store_skip sk xs = (case sk of None \<Rightarrow> xs | Some n \<Rightarrow> drop (nat n) xs)"

definition store_limit :: "int option \<Rightarrow> AuditEntry list \<Rightarrow> AuditEntry list" where
  "store_limit lim xs =
     (case lim of None \<Rightarrow> xs | Some n \<Rightarrow> if n = 0 then xs else take (nat \<bar>n\<bar>) xs)"

text \<open>
  Every call observes the context: on a cancelled context it fails with the
  context's error. Otherwise inserts are accepted and reads answer from \<open>ds\<close>.
\<close>

definition mem_collection :: "AuditEntry list \<Rightarrow> collection" where
  "mem_collection ds =
     \<lparr>InsertOne = (\<lambda>ctx d k. ctx_Err ctx),
      CountDocuments = (\<lambda>ctx flt.
        case ctx_Err ctx of
          Some e \<Rightarrow> Inl e
        | None \<Rightarrow> Inr (int (length (filter (doc_matches flt) ds)))),
      Find = (\<lambda>ctx flt opts.
        case ctx_Err ctx of
          Some e \<Rightarrow> Inl e
        | None \<Rightarrow>
            Inr (Inr (store_limit (opt_Limit opts)
                       (store_skip (opt_Skip opts)
                         (store_sort (opt_Sort opts) (filter (doc_matches flt) ds)))))),
      FindOne = (\<lambda>ctx flt.
        case ctx_Err ctx of
          Some e \<Rightarrow> Inl e
        | None \<Rightarrow>
            (case filter (doc_matches flt) ds of
               [] \<Rightarrow> Inl ErrNoDocuments
             | d # rest \<Rightarrow> Inr d))\<rparr>"

section \<open>Reading traces, and example data\<close>

definition is_InsertOne :: "event \<Rightarrow> bool" where
  "is_InsertOne ev = (case ev of EvInsertOne d \<Rightarrow> True | _ \<Rightarrow> False)"

definition is_Sleep :: "event \<Rightarrow> bool" where
  "is_Sleep ev = (case ev of EvSleep t \<Rightarrow> True | _ \<Rightarrow> False)"

text \<open>The characters \<^verbatim>\<open>encoding/hex\<close> accepts as digits.\<close>

definition is_hex_digit :: "char \<Rightarrow> bool" where
  "is_hex_digit c = (c \<in> set ''0123456789abcdefABCDEF'')"

text \<open>
  The scenario of the specification: a login by the user \<open>u1\<close> on the session
  \<open>s1\<close>, and a later update by the same user, both put together with the builder.
\<close>

definition oid1 :: ObjectID where
  "oid1 = [0x65, 0x4f, 0x1a, 0x2b, 0x3c, 0x4d, 0x5e, 0x6f, 0x70, 0x81, 0x92, 0xa3]"

definition oid2 :: ObjectID where
  "oid2 = [0x65, 0x4f, 0x1a, 0x2b, 0x3c, 0x4d, 0x5e, 0x6f, 0x70, 0x81, 0x92, 0xa4]"

definition login_entry :: AuditEntry where
  "login_entry =
     AuditBuilder_Build
       (AuditBuilder_Success True
         (AuditBuilder_Resource ''session'' ''s1'' ''''
           (AuditBuilder_Actor ''u1'' ActorTypeUser ''''
             (AuditBuilder_Action ActionLogin
               (NewAuditBuilderWithService oid1 100 (None :: unit option))))))"

definition update_entry :: AuditEntry where
  "update_entry =
     AuditBuilder_Build
       (AuditBuilder_Success True
         (AuditBuilder_Resource ''user'' ''u2'' ''''
           (AuditBuilder_Actor ''u1'' ActorTypeUser ''''
             (AuditBuilder_Action ActionUpdate
               (NewAuditBuilderWithService oid2 200 (None :: unit option))))))"

definition runtime0 :: runtime where
  "runtime0 = \<lparr>Now = 500, NewObjectID = oid2\<rparr>"

text \<open>A store whose first \<open>m\<close> insert attempts fail with a transient error.\<close>

definition flaky_collection :: "nat \<Rightarrow> collection" where
  "flaky_collection m =
     (mem_collection [])\<lparr>InsertOne :=
        (\<lambda>ctx d k. if k < m then Some (ErrNew ''connection reset'') else ctx_Err ctx)\<rparr>"

text \<open>A store whose reads fail with an error of the connection.\<close>

definition broken_collection :: collection where
  "broken_collection =
     (mem_collection [])\<lparr>FindOne := (\<lambda>ctx flt. Inl (ErrNew ''connection refused''))\<rparr>"

text \<open>A repository that only reports which of its operations was called.\<close>

definition recording_repo :: "string AuditRepository" where
  "recording_repo =
     \<lparr>Insert = (\<lambda>ctx d. ([''Insert''], None)),
      FindByQuery = (\<lambda>ctx q. ([''FindByQuery''], Inr \<lparr>Entries = [], Total = 0, HasMore = False\<rparr>)),
      FindByID = (\<lambda>ctx i. ([''FindByID''], Inr None)),
      FindByResource = (\<lambda>ctx t i l. ([''FindByResource''], Inr [])),
      FindByActor = (\<lambda>ctx i t l. ([''FindByActor''], Inr []))\<rparr>"

text \<open>A store that answers every read with the login entry, whatever is asked.\<close>

definition stubborn_collection :: collection where
  "stubborn_collection =
     (mem_collection [])\<lparr>CountDocuments := (\<lambda>ctx flt. Inr 1),
        Find := (\<lambda>ctx flt opts. Inr (Inr [login_entry]))\<rparr>"

definition empty_query :: AuditQuery where
  "empty_query =
     \<lparr>ActorID = '''', ActorType = '''', SessionID = '''', Actions = [], ResourceType = '''',
      ResourceID = '''', StartTime = None, EndTime = None, QSuccess = None, Limit = 0,
      Offset = 0\<rparr>"

section \<open>Properties of the builder\<close>

lemmas enum_defs =
  ActorTypeUser_def ActorTypeSystem_def ActorTypeService_def ActorTypeAPI_def
  ActorTypeAdmin_def ActionCreate_def ActionUpdate_def ActionDelete_def ActionLogin_def
  ActionLogout_def ActionView_def ActionExport_def


text \<open>
  C1 (as the code has it). \<^verbatim>\<open>Error\<close> with a non-nil error sets the error message
  and forces the success flag to false, whatever the flag was before, and changes
  nothing else; with a nil error it changes nothing. \<^verbatim>\<open>Success\<close> is a plain setter:
  it assigns its argument to the flag, whatever the builder holds, and changes nothing
  else. So \<^verbatim>\<open>Success(true)\<close> followed by \<^verbatim>\<open>Error(e)\<close> builds an entry with success
  false, and \<^verbatim>\<open>Error(e)\<close> followed by \<^verbatim>\<open>Success(true)\<close> builds an entry with success
  true, the error message kept.
\<close>

theorem Error_Success_last_call_wins:
  "AuditBuilder_Build (AuditBuilder_Error (Some e) b)
     = (AuditBuilder_Build b)\<lparr>ErrorMsg := Error_text e, Success := False\<rparr>
   \<and> Success (AuditBuilder_Build (AuditBuilder_Error (Some e) b)) = False
   \<and> AuditBuilder_Error None b = b
   \<and> AuditBuilder_Build (AuditBuilder_Success v b) = (AuditBuilder_Build b)\<lparr>Success := v\<rparr>
   \<and> Success (AuditBuilder_Build (AuditBuilder_Success v b)) = v
   \<and> service (AuditBuilder_Error (Some e) b) = service b
   \<and> service (AuditBuilder_Success v b) = service b
   \<and> Success (AuditBuilder_Build (AuditBuilder_Error (Some e) (AuditBuilder_Success True b))) = False
   \<and> Success (AuditBuilder_Build (AuditBuilder_Success True (AuditBuilder_Error (Some e) b))) = True
   \<and> ErrorMsg (AuditBuilder_Build (AuditBuilder_Success True (AuditBuilder_Error (Some e) b)))
       = Error_text e"
  by (simp add: AuditBuilder_Build_def AuditBuilder_Error_def AuditBuilder_Success_def)

text \<open>
  C1 as the specification states it fails: on a fresh builder, \<^verbatim>\<open>Error\<close> with the
  error "insufficient permissions" followed by \<^verbatim>\<open>Success(true)\<close> builds an entry
  whose success flag is true.
\<close>

theorem Error_then_Success_counterexample:
  "\<not> (Success (AuditBuilder_Build
          (AuditBuilder_Success True
            (AuditBuilder_Error (Some (ErrNew ''insufficient permissions''))
              (NewAuditBuilderWithService NilObjectID 0 (None :: unit option))))) = False
      \<and> Success (AuditBuilder_Build
          (AuditBuilder_Error (Some (ErrNew ''insufficient permissions''))
            (AuditBuilder_Success True
              (NewAuditBuilderWithService NilObjectID 0 (None :: unit option))))) = False)"
  by (simp add: AuditBuilder_Build_def AuditBuilder_Error_def AuditBuilder_Success_def
      NewAuditBuilderWithService_def)

section \<open>Properties of the retry loop\<close>

lemma insert_loop_all_fail:
  "0 \<le> a \<Longrightarrow> a \<le> MaxRetries (config r) \<Longrightarrow>
   (\<And>j. nat a \<le> j \<Longrightarrow> int j \<le> MaxRetries (config r) \<Longrightarrow>
      InsertOne (collection r) ctx ent j \<noteq> None) \<Longrightarrow>
   insert_loop r ctx ent a err =
     (concat (replicate (nat (MaxRetries (config r) - a)) [EvInsertOne ent, EvSleep (RetryDelay (config r))])
        @ [EvInsertOne ent],
      Some (ErrAttempts (MaxRetries (config r) + 1)
              (InsertOne (collection r) ctx ent (nat (MaxRetries (config r))))))"
proof (induction "nat (MaxRetries (config r) - a)" arbitrary: a err)
  case 0
  then have a: "a = MaxRetries (config r)" by simp
  from 0 a have "InsertOne (collection r) ctx ent (nat a) \<noteq> None" by simp
  then obtain e where e: "InsertOne (collection r) ctx ent (nat a) = Some e" by auto
  show ?case
    using e unfolding a
    by (simp add: insert_loop.simps [of r ctx ent "MaxRetries (config r)"]
        insert_loop.simps [of r ctx ent "MaxRetries (config r) + 1"])
next
  case (Suc k)
  then have lt: "a < MaxRetries (config r)" by simp
  from Suc lt have "InsertOne (collection r) ctx ent (nat a) \<noteq> None" by simp
  then obtain e where e: "InsertOne (collection r) ctx ent (nat a) = Some e" by auto
  have k: "k = nat (MaxRetries (config r) - (a + 1))" using Suc.hyps(2) by simp
  have ih: "insert_loop r ctx ent (a + 1) (Some e) =
     (concat (replicate k [EvInsertOne ent, EvSleep (RetryDelay (config r))]) @ [EvInsertOne ent],
      Some (ErrAttempts (MaxRetries (config r) + 1)
              (InsertOne (collection r) ctx ent (nat (MaxRetries (config r))))))"
    unfolding k using Suc.prems lt by (intro Suc.hyps(1)) (auto simp: k)
  have n: "nat (MaxRetries (config r) - a) = Suc k" using Suc.hyps(2) by simp
  show ?case
    unfolding n using lt e ih by (simp add: insert_loop.simps [of r ctx ent a])
qed

lemma insert_loop_first_success:
  "0 \<le> a \<Longrightarrow> nat a \<le> k \<Longrightarrow> int k \<le> MaxRetries (config r) \<Longrightarrow>
   InsertOne (collection r) ctx ent k = None \<Longrightarrow>
   (\<And>j. nat a \<le> j \<Longrightarrow> j < k \<Longrightarrow> InsertOne (collection r) ctx ent j \<noteq> None) \<Longrightarrow>
   insert_loop r ctx ent a err =
     (concat (replicate (k - nat a) [EvInsertOne ent, EvSleep (RetryDelay (config r))])
        @ [EvInsertOne ent], None)"
proof (induction "k - nat a" arbitrary: a err)
  case 0
  then have a: "nat a = k" by simp
  show ?case
    using 0 a by (simp add: insert_loop.simps [of r ctx ent a])
next
  case (Suc m)
  then have lt: "nat a < k" by simp
  then have lt': "a < MaxRetries (config r)" using Suc.prems by linarith
  from Suc lt have "InsertOne (collection r) ctx ent (nat a) \<noteq> None" by simp
  then obtain e where e: "InsertOne (collection r) ctx ent (nat a) = Some e" by auto
  have m: "m = k - nat (a + 1)" using Suc.hyps(2) Suc.prems(1) by (simp add: nat_add_distrib)
  have ih: "insert_loop r ctx ent (a + 1) (Some e) =
     (concat (replicate m [EvInsertOne ent, EvSleep (RetryDelay (config r))]) @ [EvInsertOne ent], None)"
    unfolding m using Suc.prems lt by (intro Suc.hyps(1)) (auto simp: m nat_add_distrib)
  have n: "k - nat a = Suc m" using Suc.hyps(2) by simp
  show ?case
    unfolding n using lt' e ih by (simp add: insert_loop.simps [of r ctx ent a])
qed

lemma mongo_Insert_defaults:
  "mongo_Insert rt r ctx ent =
     insert_loop r ctx
       (ent\<lparr>Timestamp := (if Time_IsZero (Timestamp ent) then Now rt else Timestamp ent),
            ID := (if ObjectID_IsZero (ID ent) then NewObjectID rt else ID ent)\<rparr>) 0 None"
  by (simp add: mongo_Insert_def Let_def)

lemma count_attempts:
  "length (filter is_InsertOne (concat (replicate k [EvInsertOne d, EvSleep t]) @ [EvInsertOne d]))
     = Suc k"
  by (induction k) (simp_all add: is_InsertOne_def)

lemma count_sleeps:
  "length (filter is_Sleep (concat (replicate k [EvInsertOne d, EvSleep t]) @ [EvInsertOne d])) = k"
  by (induction k) (simp_all add: is_Sleep_def)

lemma login_entry_fields:
  "login_entry =
     \<lparr>ID = oid1, Timestamp = 100, Action = ''login'',
      Actor = \<lparr>actor_ID = ''u1'', actor_Type = ''user'', actor_Name = '''', actor_SessionID = ''''\<rparr>,
      Resource = \<lparr>res_Type = ''session'', res_ID = ''s1'', res_Name = ''''\<rparr>,
      Changes = [], Metadata = Map.empty, IPAddress = '''', UserAgent = '''',
      Success = True, ErrorMsg = ''''\<rparr>"
  by (simp add: login_entry_def AuditBuilder_Build_def AuditBuilder_Success_def
      AuditBuilder_Resource_def AuditBuilder_Actor_def AuditBuilder_Action_def
      NewAuditBuilderWithService_def enum_defs)

lemma update_entry_fields:
  "update_entry =
     \<lparr>ID = oid2, Timestamp = 200, Action = ''update'',
      Actor = \<lparr>actor_ID = ''u1'', actor_Type = ''user'', actor_Name = '''', actor_SessionID = ''''\<rparr>,
      Resource = \<lparr>res_Type = ''user'', res_ID = ''u2'', res_Name = ''''\<rparr>,
      Changes = [], Metadata = Map.empty, IPAddress = '''', UserAgent = '''',
      Success = True, ErrorMsg = ''''\<rparr>"
  by (simp add: update_entry_def AuditBuilder_Build_def AuditBuilder_Success_def
      AuditBuilder_Resource_def AuditBuilder_Actor_def AuditBuilder_Action_def
      NewAuditBuilderWithService_def enum_defs)

lemma oid1_not_zero: "\<not> ObjectID_IsZero oid1"
  by (simp add: ObjectID_IsZero_def NilObjectID_def oid1_def)

lemma oid2_not_zero: "\<not> ObjectID_IsZero oid2"
  by (simp add: ObjectID_IsZero_def NilObjectID_def oid2_def)

lemma oid1_oid2: "oid1 \<noteq> oid2"
  by (simp add: oid1_def oid2_def)

text \<open>
  C3. With \<^verbatim>\<open>MaxRetries = n \<ge> 0\<close>, \<^verbatim>\<open>Insert\<close> writes the entry (its timestamp and
  identifier filled in when zero) at most \<open>n + 1\<close> times. If attempt number \<open>k \<le> n\<close>
  (counted from 0) is the first to succeed, the trace is \<open>k\<close> failed attempts, each
  followed by a sleep of \<^verbatim>\<open>RetryDelay\<close>, then the successful attempt, and the result
  is \<^verbatim>\<open>nil\<close>: nothing follows the success. If all \<open>n + 1\<close> attempts fail, the trace is
  \<open>n + 1\<close> attempts with a sleep of \<^verbatim>\<open>RetryDelay\<close> between consecutive ones, and the
  result is the last attempt's error wrapped with the count \<open>n + 1\<close>.
\<close>

theorem Insert_retries:
  assumes n: "0 \<le> MaxRetries (config r)"
    and ent': "ent' = ent\<lparr>Timestamp := (if Time_IsZero (Timestamp ent) then Now rt else Timestamp ent),
            ID := (if ObjectID_IsZero (ID ent) then NewObjectID rt else ID ent)\<rparr>"
  shows "(\<forall>k. int k \<le> MaxRetries (config r) \<and> InsertOne (collection r) ctx ent' k = None \<and>
              (\<forall>j<k. InsertOne (collection r) ctx ent' j \<noteq> None) \<longrightarrow>
            mongo_Insert rt r ctx ent =
              (concat (replicate k [EvInsertOne ent', EvSleep (RetryDelay (config r))])
                 @ [EvInsertOne ent'], None))
       \<and> ((\<forall>j. int j \<le> MaxRetries (config r) \<longrightarrow> InsertOne (collection r) ctx ent' j \<noteq> None) \<longrightarrow>
            mongo_Insert rt r ctx ent =
              (concat (replicate (nat (MaxRetries (config r)))
                         [EvInsertOne ent', EvSleep (RetryDelay (config r))])
                 @ [EvInsertOne ent'],
               Some (ErrAttempts (MaxRetries (config r) + 1)
                       (InsertOne (collection r) ctx ent' (nat (MaxRetries (config r)))))))
       \<and> length (filter is_InsertOne (fst (mongo_Insert rt r ctx ent)))
             \<le> nat (MaxRetries (config r)) + 1"
proof -
  let ?n = "MaxRetries (config r)"
  let ?ok = "\<lambda>k. InsertOne (collection r) ctx ent' k = None"
  have run: "mongo_Insert rt r ctx ent = insert_loop r ctx ent' 0 None"
    unfolding ent' by (rule mongo_Insert_defaults)
  have first: "mongo_Insert rt r ctx ent =
      (concat (replicate k [EvInsertOne ent', EvSleep (RetryDelay (config r))]) @ [EvInsertOne ent'], None)"
    if "int k \<le> ?n" "?ok k" "\<forall>j<k. \<not> ?ok j" for k
    using insert_loop_first_success [of 0 k r ctx ent' None] that by (simp add: run)
  have none: "mongo_Insert rt r ctx ent =
      (concat (replicate (nat ?n) [EvInsertOne ent', EvSleep (RetryDelay (config r))]) @ [EvInsertOne ent'],
       Some (ErrAttempts (?n + 1) (InsertOne (collection r) ctx ent' (nat ?n))))"
    if "\<forall>j. int j \<le> ?n \<longrightarrow> \<not> ?ok j"
    using insert_loop_all_fail [of 0 r ctx ent' None] n that by (simp add: run)
  have bound: "length (filter is_InsertOne (fst (mongo_Insert rt r ctx ent))) \<le> nat ?n + 1"
  proof (cases "\<exists>k. int k \<le> ?n \<and> ?ok k")
    case True
    define k where "k = (LEAST k. int k \<le> ?n \<and> ?ok k)"
    have k: "int k \<le> ?n \<and> ?ok k"
      unfolding k_def using True by (rule LeastI_ex)
    have least: "\<forall>j<k. \<not> ?ok j"
    proof (intro allI impI)
      fix j assume j: "j < k"
      then have "\<not> (int j \<le> ?n \<and> ?ok j)"
        unfolding k_def by (rule not_less_Least)
      moreover have "int j \<le> ?n" using j k by linarith
      ultimately show "\<not> ?ok j" by simp
    qed
    have eq: "mongo_Insert rt r ctx ent =
      (concat (replicate k [EvInsertOne ent', EvSleep (RetryDelay (config r))]) @ [EvInsertOne ent'], None)"
      using k least by (intro first) auto
    have "length (filter is_InsertOne (fst (mongo_Insert rt r ctx ent))) = Suc k"
      unfolding eq fst_conv by (rule count_attempts)
    moreover have "k \<le> nat ?n" using k by linarith
    ultimately show ?thesis by simp
  next
    case False
    then have eq: "mongo_Insert rt r ctx ent =
      (concat (replicate (nat ?n) [EvInsertOne ent', EvSleep (RetryDelay (config r))]) @ [EvInsertOne ent'],
       Some (ErrAttempts (?n + 1) (InsertOne (collection r) ctx ent' (nat ?n))))"
      by (intro none) auto
    have "length (filter is_InsertOne (fst (mongo_Insert rt r ctx ent))) = Suc (nat ?n)"
      unfolding eq fst_conv by (rule count_attempts)
    then show ?thesis by simp
  qed
  show ?thesis
    using first none bound by blast
qed

text \<open>
  With the default configuration (\<^verbatim>\<open>MaxRetries = 3\<close>): over a store that fails three
  times and then accepts, \<^verbatim>\<open>Insert\<close> succeeds after exactly four attempts and three
  sleeps; over a store that fails four times, it makes the same four attempts and
  returns the last error, wrapped with the count 4.
\<close>

theorem Insert_retries_witness:
  "mongo_Insert runtime0 \<lparr>collection = flaky_collection 3, config = DefaultConfig\<rparr> Background
       login_entry =
     ([EvInsertOne login_entry, EvSleep second, EvInsertOne login_entry, EvSleep second,
       EvInsertOne login_entry, EvSleep second, EvInsertOne login_entry], None)
   \<and> length (filter is_InsertOne
        (fst (mongo_Insert runtime0 \<lparr>collection = flaky_collection 3, config = DefaultConfig\<rparr>
                Background login_entry))) \<le> 4
   \<and> mongo_Insert runtime0 \<lparr>collection = flaky_collection 4, config = DefaultConfig\<rparr> Background
       login_entry =
     ([EvInsertOne login_entry, EvSleep second, EvInsertOne login_entry, EvSleep second,
       EvInsertOne login_entry, EvSleep second, EvInsertOne login_entry],
      Some (ErrAttempts 4 (Some (ErrNew ''connection reset''))))"
proof -
  let ?r = "\<lparr>collection = flaky_collection 3, config = DefaultConfig\<rparr>"
  let ?f = "\<lparr>collection = flaky_collection 4, config = DefaultConfig\<rparr>"
  have n: "0 \<le> MaxRetries (config ?r)" and nf: "0 \<le> MaxRetries (config ?f)"
    by (simp_all add: DefaultConfig_def)
  have ent': "login_entry = login_entry\<lparr>Timestamp :=
        (if Time_IsZero (Timestamp login_entry) then Now runtime0 else Timestamp login_entry),
      ID := (if ObjectID_IsZero (ID login_entry) then NewObjectID runtime0 else ID login_entry)\<rparr>"
    using oid1_not_zero by (simp add: login_entry_fields Time_IsZero_def)
  have ok: "int 3 \<le> MaxRetries (config ?r) \<and> InsertOne (collection ?r) Background login_entry 3 = None
      \<and> (\<forall>j<3. InsertOne (collection ?r) Background login_entry j \<noteq> None)"
    by (simp add: DefaultConfig_def flaky_collection_def Background_def)
  have bad: "\<forall>j. int j \<le> MaxRetries (config ?f) \<longrightarrow>
      InsertOne (collection ?f) Background login_entry j \<noteq> None"
    by (simp add: DefaultConfig_def flaky_collection_def)
  have last: "InsertOne (collection ?f) Background login_entry (nat (MaxRetries (config ?f)))
      = Some (ErrNew ''connection reset'')"
    by (simp add: DefaultConfig_def flaky_collection_def)
  have three: "concat (replicate 3 [a, b]) = [a, b, a, b, a, b]" for a b :: event
    by (simp add: numeral_3_eq_3)
  note T = Insert_retries [OF n ent', of Background]
  note F = Insert_retries [OF nf ent', of Background]
  have a: "mongo_Insert runtime0 ?r Background login_entry =
      (concat (replicate 3 [EvInsertOne login_entry, EvSleep (RetryDelay (config ?r))])
         @ [EvInsertOne login_entry], None)"
    using T ok by blast
  have b: "length (filter is_InsertOne (fst (mongo_Insert runtime0 ?r Background login_entry)))
      \<le> nat (MaxRetries (config ?r)) + 1"
    using T by blast
  have f: "mongo_Insert runtime0 ?f Background login_entry =
      (concat (replicate (nat (MaxRetries (config ?f)))
                 [EvInsertOne login_entry, EvSleep (RetryDelay (config ?f))])
         @ [EvInsertOne login_entry],
       Some (ErrAttempts (MaxRetries (config ?f) + 1)
               (InsertOne (collection ?f) Background login_entry (nat (MaxRetries (config ?f))))))"
    using F bad by blast
  have c: "nat (MaxRetries (config ?r)) + 1 = 4" "RetryDelay (config ?r) = second"
    "nat (MaxRetries (config ?f)) = 3" "RetryDelay (config ?f) = second"
    "MaxRetries (config ?f) + 1 = 4"
    by (simp_all add: DefaultConfig_def)
  show ?thesis
    using a b f unfolding last unfolding c three by simp
qed

section \<open>Insert and a cancelled context\<close>

text \<open>
  C2 (as the code has it). \<^verbatim>\<open>Insert\<close> hands the context to every \<^verbatim>\<open>InsertOne\<close>
  call and never looks at it itself, and \<^verbatim>\<open>time.Sleep\<close> does not take a context.
  So on a context that is already cancelled, over a driver that fails every call on
  such a context with the context's error, \<^verbatim>\<open>Insert\<close> still makes all
  \<^verbatim>\<open>MaxRetries + 1\<close> attempts and sleeps \<^verbatim>\<open>RetryDelay\<close> between consecutive
  ones (\<^verbatim>\<open>MaxRetries\<close> sleeps), and only then returns the cancellation error,
  wrapped with the attempt count.
\<close>

theorem Insert_cancelled_context_runs_all_attempts:
  assumes n: "0 \<le> MaxRetries (config r)"
    and cancelled: "ctx_Err ctx = Some cerr"
    and observes: "\<forall>d k. InsertOne (collection r) ctx d k = ctx_Err ctx"
    and ent': "ent' = ent\<lparr>Timestamp := (if Time_IsZero (Timestamp ent) then Now rt else Timestamp ent),
            ID := (if ObjectID_IsZero (ID ent) then NewObjectID rt else ID ent)\<rparr>"
  shows "mongo_Insert rt r ctx ent =
           (concat (replicate (nat (MaxRetries (config r)))
                      [EvInsertOne ent', EvSleep (RetryDelay (config r))])
              @ [EvInsertOne ent'],
            Some (ErrAttempts (MaxRetries (config r) + 1) (Some cerr)))
       \<and> length (filter is_InsertOne (fst (mongo_Insert rt r ctx ent)))
             = nat (MaxRetries (config r)) + 1
       \<and> length (filter is_Sleep (fst (mongo_Insert rt r ctx ent)))
             = nat (MaxRetries (config r))"
proof -
  have fails: "InsertOne (collection r) ctx ent' j = Some cerr" for j
    using observes cancelled by simp
  have run: "mongo_Insert rt r ctx ent = insert_loop r ctx ent' 0 None"
    unfolding ent' by (rule mongo_Insert_defaults)
  have eq: "mongo_Insert rt r ctx ent =
      (concat (replicate (nat (MaxRetries (config r)))
                 [EvInsertOne ent', EvSleep (RetryDelay (config r))]) @ [EvInsertOne ent'],
       Some (ErrAttempts (MaxRetries (config r) + 1) (Some cerr)))"
    using insert_loop_all_fail [of 0 r ctx ent' None] n by (simp add: run fails)
  have a: "length (filter is_InsertOne (fst (mongo_Insert rt r ctx ent)))
      = Suc (nat (MaxRetries (config r)))"
    unfolding eq fst_conv by (rule count_attempts)
  have s: "length (filter is_Sleep (fst (mongo_Insert rt r ctx ent))) = nat (MaxRetries (config r))"
    unfolding eq fst_conv by (rule count_sleeps)
  show ?thesis
    using eq a s by simp
qed

text \<open>
  With the default configuration, a store that observes cancellation and the
  cancelled context: four attempts and three sleeps of one second.
\<close>

theorem Insert_cancelled_context_witness:
  "mongo_Insert runtime0 \<lparr>collection = mem_collection [], config = DefaultConfig\<rparr> Canceled
       login_entry =
     ([EvInsertOne login_entry, EvSleep second, EvInsertOne login_entry, EvSleep second,
       EvInsertOne login_entry, EvSleep second, EvInsertOne login_entry],
      Some (ErrAttempts 4 (Some (ErrNew ''context canceled''))))
   \<and> length (filter is_Sleep
        (fst (mongo_Insert runtime0 \<lparr>collection = mem_collection [], config = DefaultConfig\<rparr>
                Canceled login_entry))) = 3"
proof -
  let ?r = "\<lparr>collection = mem_collection [], config = DefaultConfig\<rparr>"
  have n: "0 \<le> MaxRetries (config ?r)"
    by (simp add: DefaultConfig_def)
  have cancelled: "ctx_Err Canceled = Some (ErrNew ''context canceled'')"
    by (simp add: Canceled_def)
  have observes: "\<forall>d k. InsertOne (collection ?r) Canceled d k = ctx_Err Canceled"
    by (simp add: mem_collection_def)
  have ent': "login_entry = login_entry\<lparr>Timestamp :=
        (if Time_IsZero (Timestamp login_entry) then Now runtime0 else Timestamp login_entry),
      ID := (if ObjectID_IsZero (ID login_entry) then NewObjectID runtime0 else ID login_entry)\<rparr>"
    using oid1_not_zero by (simp add: login_entry_fields Time_IsZero_def)
  have c: "nat (MaxRetries (config ?r)) = 3" "RetryDelay (config ?r) = second"
    "MaxRetries (config ?r) + 1 = 4"
    by (simp_all add: DefaultConfig_def)
  have three: "concat (replicate 3 [a, b]) = [a, b, a, b, a, b]" for a b :: event
    by (simp add: numeral_3_eq_3)
  show ?thesis
    using Insert_cancelled_context_runs_all_attempts [OF n cancelled observes ent']
    unfolding c three by (simp add: is_Sleep_def)
qed

text \<open>
  C2 as the specification states it fails: with \<^verbatim>\<open>MaxRetries = 1\<close> and a context
  cancelled before the call, over a store that observes cancellation, \<^verbatim>\<open>Insert\<close>
  makes an attempt, sleeps the retry delay and makes a second attempt.
\<close>

theorem Insert_cancelled_context_counterexample:
  "mongo_Insert runtime0
       \<lparr>collection = mem_collection [], config = DefaultConfig\<lparr>MaxRetries := 1\<rparr>\<rparr> Canceled
       login_entry =
     ([EvInsertOne login_entry, EvSleep second, EvInsertOne login_entry],
      Some (ErrAttempts 2 (Some (ErrNew ''context canceled''))))
   \<and> \<not> (filter is_Sleep
           (fst (mongo_Insert runtime0
                   \<lparr>collection = mem_collection [], config = DefaultConfig\<lparr>MaxRetries := 1\<rparr>\<rparr>
                   Canceled login_entry)) = []
         \<and> length (filter is_InsertOne
             (fst (mongo_Insert runtime0
                     \<lparr>collection = mem_collection [], config = DefaultConfig\<lparr>MaxRetries := 1\<rparr>\<rparr>
                     Canceled login_entry))) \<le> 1)"
proof -
  have ent: "(if Time_IsZero (Timestamp login_entry) then login_entry\<lparr>Timestamp := Now runtime0\<rparr>
              else login_entry) = login_entry"
    by (simp add: login_entry_fields Time_IsZero_def)
  have ent2: "(if ObjectID_IsZero (ID login_entry) then login_entry\<lparr>ID := NewObjectID runtime0\<rparr>
              else login_entry) = login_entry"
    using oid1_not_zero by (simp add: login_entry_fields)
  have eq: "mongo_Insert runtime0
       \<lparr>collection = mem_collection [], config = DefaultConfig\<lparr>MaxRetries := 1\<rparr>\<rparr> Canceled
       login_entry =
     ([EvInsertOne login_entry, EvSleep second, EvInsertOne login_entry],
      Some (ErrAttempts 2 (Some (ErrNew ''context canceled''))))"
    by (simp add: mongo_Insert_def Let_def ent ent2 insert_loop.simps DefaultConfig_def
        mem_collection_def Canceled_def)
  show ?thesis
    unfolding eq by (simp add: is_Sleep_def is_InsertOne_def)
qed

section \<open>Properties of the service: validation before delegation\<close>

lemma validateAuditEntry_None:
  "validateAuditEntry ent = None \<longleftrightarrow>
     Action ent \<noteq> '''' \<and> actor_ID (Actor ent) \<noteq> '''' \<and> actor_Type (Actor ent) \<noteq> '''' \<and>
     res_Type (Resource ent) \<noteq> '''' \<and> res_ID (Resource ent) \<noteq> '''' \<and>
     actor_Type (Actor ent) \<in> set valid_actor_types \<and> Action ent \<in> set valid_actions"
  by (simp add: validateAuditEntry_def)

lemma validateActions_None:
  "validateActions as = None \<longleftrightarrow> set as \<subseteq> set valid_actions"
  by (induction as) simp_all

lemma validateAuditQuery_None:
  "validateAuditQuery q = None \<longleftrightarrow>
     0 \<le> Limit q \<and> 0 \<le> Offset q \<and>
     (\<forall>st en. StartTime q = Some st \<and> EndTime q = Some en \<longrightarrow> st \<le> en) \<and>
     (ActorType q = '''' \<or> ActorType q \<in> set valid_actor_types) \<and>
     set (Actions q) \<subseteq> set valid_actions"
  by (auto simp: validateAuditQuery_def validateActions_None split: option.splits)

lemma set_valid_actor_types:
  "set valid_actor_types =
     {ActorTypeUser, ActorTypeSystem, ActorTypeService, ActorTypeAPI, ActorTypeAdmin}"
  by (simp add: valid_actor_types_def)

lemma set_valid_actions:
  "set valid_actions =
     {ActionCreate, ActionUpdate, ActionDelete, ActionLogin, ActionLogout, ActionView,
      ActionExport}"
  by (simp add: valid_actions_def)

text \<open>
  C5. An entry with an empty action, actor id, actor type, resource type or resource
  id, or with an actor type or action outside the enums (any one of these) makes
  \<^verbatim>\<open>LogAction\<close> return a validation error with an empty trace, whatever the
  repository is: \<^verbatim>\<open>Insert\<close> is not called. For every other entry \<^verbatim>\<open>LogAction\<close> is
  the repository's \<^verbatim>\<open>Insert\<close> on the same entry.
\<close>

theorem LogAction_validates_then_delegates:
  "(Action ent = '''' \<or> actor_ID (Actor ent) = '''' \<or> actor_Type (Actor ent) = '''' \<or>
    res_Type (Resource ent) = '''' \<or> res_ID (Resource ent) = '''' \<or>
    actor_Type (Actor ent) \<notin>
      {ActorTypeUser, ActorTypeSystem, ActorTypeService, ActorTypeAPI, ActorTypeAdmin} \<or>
    Action ent \<notin>
      {ActionCreate, ActionUpdate, ActionDelete, ActionLogin, ActionLogout, ActionView,
       ActionExport}
    \<longrightarrow> (\<exists>verr. LogAction s ctx ent = ([], Some (ErrWrap ''invalid audit entry'' verr))))
   \<and> (Action ent \<noteq> '''' \<and> actor_ID (Actor ent) \<noteq> '''' \<and> actor_Type (Actor ent) \<noteq> '''' \<and>
      res_Type (Resource ent) \<noteq> '''' \<and> res_ID (Resource ent) \<noteq> '''' \<and>
      actor_Type (Actor ent) \<in>
        {ActorTypeUser, ActorTypeSystem, ActorTypeService, ActorTypeAPI, ActorTypeAdmin} \<and>
      Action ent \<in>
        {ActionCreate, ActionUpdate, ActionDelete, ActionLogin, ActionLogout, ActionView,
         ActionExport}
      \<longrightarrow> LogAction s ctx ent = Insert (repo s) ctx ent)"
proof (cases "validateAuditEntry ent")
  case None
  then have good: "Action ent \<noteq> '''' \<and> actor_ID (Actor ent) \<noteq> '''' \<and>
      actor_Type (Actor ent) \<noteq> '''' \<and> res_Type (Resource ent) \<noteq> '''' \<and>
      res_ID (Resource ent) \<noteq> '''' \<and>
      actor_Type (Actor ent) \<in>
        {ActorTypeUser, ActorTypeSystem, ActorTypeService, ActorTypeAPI, ActorTypeAdmin} \<and>
      Action ent \<in>
        {ActionCreate, ActionUpdate, ActionDelete, ActionLogin, ActionLogout, ActionView,
         ActionExport}"
    unfolding validateAuditEntry_None set_valid_actor_types set_valid_actions by simp
  have "LogAction s ctx ent = Insert (repo s) ctx ent"
    by (simp add: LogAction_def None)
  with good show ?thesis by blast
next
  case (Some verr)
  then have "validateAuditEntry ent \<noteq> None" by simp
  then have bad: "\<not> (Action ent \<noteq> '''' \<and> actor_ID (Actor ent) \<noteq> '''' \<and>
      actor_Type (Actor ent) \<noteq> '''' \<and> res_Type (Resource ent) \<noteq> '''' \<and>
      res_ID (Resource ent) \<noteq> '''' \<and>
      actor_Type (Actor ent) \<in>
        {ActorTypeUser, ActorTypeSystem, ActorTypeService, ActorTypeAPI, ActorTypeAdmin} \<and>
      Action ent \<in>
        {ActionCreate, ActionUpdate, ActionDelete, ActionLogin, ActionLogout, ActionView,
         ActionExport})"
    unfolding validateAuditEntry_None set_valid_actor_types set_valid_actions by simp
  have "LogAction s ctx ent = ([], Some (ErrWrap ''invalid audit entry'' verr))"
    by (simp add: LogAction_def Some)
  with bad show ?thesis by blast
qed

text \<open>
  Over a repository that reports its calls: the login entry with its actor type
  replaced by \<open>robot\<close> is rejected and nothing is called; the login entry itself
  reaches \<^verbatim>\<open>Insert\<close>.
\<close>

theorem LogAction_validates_witness:
  "fst (LogAction \<lparr>repo = recording_repo\<rparr> Background
          (login_entry\<lparr>Actor := (Actor login_entry)\<lparr>actor_Type := ''robot''\<rparr>\<rparr>)) = []
   \<and> LogAction \<lparr>repo = recording_repo\<rparr> Background login_entry = ([''Insert''], None)"
proof -
  let ?bad = "login_entry\<lparr>Actor := (Actor login_entry)\<lparr>actor_Type := ''robot''\<rparr>\<rparr>"
  have bad: "actor_Type (Actor ?bad) \<notin>
      {ActorTypeUser, ActorTypeSystem, ActorTypeService, ActorTypeAPI, ActorTypeAdmin}"
    by (simp add: enum_defs)
  have good: "Action login_entry \<noteq> '''' \<and> actor_ID (Actor login_entry) \<noteq> '''' \<and>
      actor_Type (Actor login_entry) \<noteq> '''' \<and> res_Type (Resource login_entry) \<noteq> '''' \<and>
      res_ID (Resource login_entry) \<noteq> '''' \<and>
      actor_Type (Actor login_entry) \<in>
        {ActorTypeUser, ActorTypeSystem, ActorTypeService, ActorTypeAPI, ActorTypeAdmin} \<and>
      Action login_entry \<in>
        {ActionCreate, ActionUpdate, ActionDelete, ActionLogin, ActionLogout, ActionView,
         ActionExport}"
    by (simp add: login_entry_fields enum_defs)
  have "\<exists>verr. LogAction \<lparr>repo = recording_repo\<rparr> Background ?bad
      = ([], Some (ErrWrap ''invalid audit entry'' verr))"
    using LogAction_validates_then_delegates [of ?bad "\<lparr>repo = recording_repo\<rparr>" Background] bad
    by blast
  then have a: "fst (LogAction \<lparr>repo = recording_repo\<rparr> Background ?bad) = []"
    by auto
  have "LogAction \<lparr>repo = recording_repo\<rparr> Background login_entry
      = Insert (repo \<lparr>repo = recording_repo\<rparr>) Background login_entry"
    using LogAction_validates_then_delegates [of login_entry "\<lparr>repo = recording_repo\<rparr>" Background]
      good
    by blast
  then have b: "LogAction \<lparr>repo = recording_repo\<rparr> Background login_entry = ([''Insert''], None)"
    by (simp add: recording_repo_def)
  from a b show ?thesis by simp
qed

text \<open>
  C6. A query with a negative limit, a negative offset, both times set with the start
  strictly after the end, a non-empty actor type outside the enum, or a listed action
  outside the enum makes \<^verbatim>\<open>GetHistory\<close> return a validation error with an empty
  trace, whatever the repository is: \<^verbatim>\<open>FindByQuery\<close> is not called. For every other
  query (a start time equal to the end time among them) \<^verbatim>\<open>GetHistory\<close> is the
  repository's \<^verbatim>\<open>FindByQuery\<close> on the same query.
\<close>

theorem GetHistory_validates_then_delegates:
  "(Limit q < 0 \<or> Offset q < 0 \<or>
    (\<exists>st en. StartTime q = Some st \<and> EndTime q = Some en \<and> en < st) \<or>
    (ActorType q \<noteq> '''' \<and> ActorType q \<notin>
      {ActorTypeUser, ActorTypeSystem, ActorTypeService, ActorTypeAPI, ActorTypeAdmin}) \<or>
    (\<exists>a \<in> set (Actions q). a \<notin>
      {ActionCreate, ActionUpdate, ActionDelete, ActionLogin, ActionLogout, ActionView,
       ActionExport})
    \<longrightarrow> (\<exists>verr. GetHistory s ctx q = ([], Inl (ErrWrap ''invalid query'' verr))))
   \<and> (0 \<le> Limit q \<and> 0 \<le> Offset q \<and>
      (\<forall>st en. StartTime q = Some st \<and> EndTime q = Some en \<longrightarrow> st \<le> en) \<and>
      (ActorType q = '''' \<or> ActorType q \<in>
        {ActorTypeUser, ActorTypeSystem, ActorTypeService, ActorTypeAPI, ActorTypeAdmin}) \<and>
      (\<forall>a \<in> set (Actions q). a \<in>
        {ActionCreate, ActionUpdate, ActionDelete, ActionLogin, ActionLogout, ActionView,
         ActionExport})
      \<longrightarrow> GetHistory s ctx q = FindByQuery (repo s) ctx q)"
proof (cases "validateAuditQuery q")
  case None
  then have ok: "0 \<le> Limit q \<and> 0 \<le> Offset q \<and>
      (\<forall>st en. StartTime q = Some st \<and> EndTime q = Some en \<longrightarrow> st \<le> en) \<and>
      (ActorType q = '''' \<or> ActorType q \<in> set valid_actor_types) \<and>
      set (Actions q) \<subseteq> set valid_actions"
    using validateAuditQuery_None [of q] by blast
  have "GetHistory s ctx q = FindByQuery (repo s) ctx q"
    by (simp add: GetHistory_def None)
  moreover have "\<not> (Limit q < 0 \<or> Offset q < 0 \<or>
      (\<exists>st en. StartTime q = Some st \<and> EndTime q = Some en \<and> en < st) \<or>
      (ActorType q \<noteq> '''' \<and> ActorType q \<notin> set valid_actor_types) \<or>
      (\<exists>a \<in> set (Actions q). a \<notin> set valid_actions))"
  proof -
    have t: "\<not> (\<exists>st en. StartTime q = Some st \<and> EndTime q = Some en \<and> en < st)"
    proof
      assume "\<exists>st en. StartTime q = Some st \<and> EndTime q = Some en \<and> en < st"
      then obtain st en where se: "StartTime q = Some st" "EndTime q = Some en" "en < st"
        by blast
      with ok have "st \<le> en" by blast
      with se show False by simp
    qed
    have l: "\<not> Limit q < 0" "\<not> Offset q < 0"
      using ok by simp_all
    have a: "\<not> (ActorType q \<noteq> '''' \<and> ActorType q \<notin> set valid_actor_types)"
      using ok by blast
    have b: "\<not> (\<exists>a \<in> set (Actions q). a \<notin> set valid_actions)"
      using ok by blast
    from t l a b show ?thesis by blast
  qed
  ultimately show ?thesis
    unfolding set_valid_actor_types set_valid_actions by blast
next
  case (Some verr)
  then have "validateAuditQuery q \<noteq> None" by simp
  then have bad: "\<not> (0 \<le> Limit q \<and> 0 \<le> Offset q \<and>
      (\<forall>st en. StartTime q = Some st \<and> EndTime q = Some en \<longrightarrow> st \<le> en) \<and>
      (ActorType q = '''' \<or> ActorType q \<in> set valid_actor_types) \<and>
      (\<forall>a \<in> set (Actions q). a \<in> set valid_actions))"
    unfolding validateAuditQuery_None by blast
  have "GetHistory s ctx q = ([], Inl (ErrWrap ''invalid query'' verr))"
    by (simp add: GetHistory_def Some)
  with bad show ?thesis
    unfolding set_valid_actor_types set_valid_actions by blast
qed

text \<open>
  Over a repository that reports its calls: a query listing the action \<open>purge\<close> is
  rejected and nothing is called; a query whose start time equals its end time reaches
  \<^verbatim>\<open>FindByQuery\<close>.
\<close>

theorem GetHistory_validates_witness:
  "fst (GetHistory \<lparr>repo = recording_repo\<rparr> Background
          (empty_query\<lparr>Actions := [ActionLogin, ''purge'']\<rparr>)) = []
   \<and> fst (GetHistory \<lparr>repo = recording_repo\<rparr> Background
          (empty_query\<lparr>StartTime := Some 100, EndTime := Some 100\<rparr>)) = [''FindByQuery'']"
proof -
  let ?bad = "empty_query\<lparr>Actions := [ActionLogin, ''purge'']\<rparr>"
  let ?good = "empty_query\<lparr>StartTime := Some 100, EndTime := Some 100\<rparr>"
  have bad: "\<exists>a \<in> set (Actions ?bad). a \<notin>
      {ActionCreate, ActionUpdate, ActionDelete, ActionLogin, ActionLogout, ActionView,
       ActionExport}"
    by (simp add: enum_defs)
  have good: "0 \<le> Limit ?good \<and> 0 \<le> Offset ?good \<and>
      (\<forall>st en. StartTime ?good = Some st \<and> EndTime ?good = Some en \<longrightarrow> st \<le> en) \<and>
      (ActorType ?good = '''' \<or> ActorType ?good \<in>
        {ActorTypeUser, ActorTypeSystem, ActorTypeService, ActorTypeAPI, ActorTypeAdmin}) \<and>
      (\<forall>a \<in> set (Actions ?good). a \<in>
        {ActionCreate, ActionUpdate, ActionDelete, ActionLogin, ActionLogout, ActionView,
         ActionExport})"
    by (simp add: empty_query_def)
  have "\<exists>verr. GetHistory \<lparr>repo = recording_repo\<rparr> Background ?bad
      = ([], Inl (ErrWrap ''invalid query'' verr))"
    using GetHistory_validates_then_delegates [of ?bad "\<lparr>repo = recording_repo\<rparr>" Background] bad
    by blast
  then have a: "fst (GetHistory \<lparr>repo = recording_repo\<rparr> Background ?bad) = []"
    by auto
  have "GetHistory \<lparr>repo = recording_repo\<rparr> Background ?good
      = FindByQuery (repo \<lparr>repo = recording_repo\<rparr>) Background ?good"
    using GetHistory_validates_then_delegates [of ?good "\<lparr>repo = recording_repo\<rparr>" Background]
      good
    by blast
  then have b: "fst (GetHistory \<lparr>repo = recording_repo\<rparr> Background ?good) = [''FindByQuery'']"
    by (simp add: recording_repo_def)
  from a b show ?thesis by simp
qed

section \<open>Properties of filter construction\<close>

lemma update_fresh:
  "k \<notin> fst ` set al \<Longrightarrow> AList.update k v al = al @ [(k, v)]"
  by (induction al) auto

lemma update_if_fresh:
  "k \<notin> fst ` set al \<Longrightarrow>
   (if c then AList.update k v al else al) = al @ (if c then [(k, v)] else [])"
  by (simp add: update_fresh)

lemma update_case_fresh:
  "k \<notin> fst ` set al \<Longrightarrow>
   (case x of Some b \<Rightarrow> AList.update k (f b) al | None \<Rightarrow> al)
     = al @ (case x of Some b \<Rightarrow> [(k, f b)] | None \<Rightarrow> [])"
  by (simp add: update_fresh split: option.splits)

lemma fresh_append:
  "k \<notin> fst ` set (al @ bl) \<longleftrightarrow> k \<notin> fst ` set al \<and> k \<notin> fst ` set bl"
  by auto

lemma fresh_if:
  "k \<notin> fst ` set (if c then [(k', v)] else []) \<longleftrightarrow> (c \<longrightarrow> k \<noteq> k')"
  by (cases c) simp_all

lemma fresh_case:
  "k \<notin> fst ` set (case x of Some b \<Rightarrow> [(k', f b)] | None \<Rightarrow> []) \<longleftrightarrow> (x \<noteq> None \<longrightarrow> k \<noteq> k')"
  by (cases x) simp_all

lemmas fresh_simps = fresh_append fresh_if fresh_case

lemma distinct_keys_if:
  "distinct (map fst al) \<Longrightarrow> k \<notin> fst ` set al \<Longrightarrow>
   distinct (map fst (al @ (if c then [(k, v)] else [])))"
  by auto

lemma distinct_keys_case:
  "distinct (map fst al) \<Longrightarrow> k \<notin> fst ` set al \<Longrightarrow>
   distinct (map fst (al @ (case x of Some b \<Rightarrow> [(k, f b)] | None \<Rightarrow> [])))"
  by (cases x) auto

lemma timeFilter_list:
  "(case en of
      Some t \<Rightarrow> AList.update ''$lte'' (BTime t)
                 (case st of Some t \<Rightarrow> AList.update ''$gte'' (BTime t) [] | None \<Rightarrow> [])
    | None \<Rightarrow> (case st of Some t \<Rightarrow> AList.update ''$gte'' (BTime t) [] | None \<Rightarrow> []))
   = (case st of Some t \<Rightarrow> [(''$gte'', BTime t)] | None \<Rightarrow> [])
     @ (case en of Some t \<Rightarrow> [(''$lte'', BTime t)] | None \<Rightarrow> [])"
  by (cases st; cases en) simp_all

text \<open>
  C8. The filter holds exactly one clause for each field of the query that is present,
  and nothing else: an equality clause for a non-empty actor id, actor type, session
  id, resource type and resource id and for a set success flag; a \<^verbatim>\<open>$in\<close> clause
  when the action list is non-empty; and, when a start or an end time is set, one clause
  on the timestamp whose document has \<^verbatim>\<open>$gte\<close> (inclusive lower bound) exactly when the
  start time is set and \<^verbatim>\<open>$lte\<close> (inclusive upper bound) exactly when the end time is
  set. No key occurs twice, so the list is the map it stands for.
\<close>

theorem buildFilter_exact_clauses:
  "buildFilter q =
     (if ActorID q \<noteq> '''' then [(''actor.id'', BString (ActorID q))] else []) @
     (if ActorType q \<noteq> '''' then [(''actor.type'', BString (ActorType q))] else []) @
     (if SessionID q \<noteq> '''' then [(''actor.session_id'', BString (SessionID q))] else []) @
     (if Actions q \<noteq> [] then [(''action'', BDoc [(''$in'', BStrings (Actions q))])] else []) @
     (if ResourceType q \<noteq> '''' then [(''resource.type'', BString (ResourceType q))] else []) @
     (if ResourceID q \<noteq> '''' then [(''resource.id'', BString (ResourceID q))] else []) @
     (case QSuccess q of Some b \<Rightarrow> [(''success'', BBool b)] | None \<Rightarrow> []) @
     (if StartTime q \<noteq> None \<or> EndTime q \<noteq> None then
        [(''timestamp'',
          BDoc ((case StartTime q of Some t \<Rightarrow> [(''$gte'', BTime t)] | None \<Rightarrow> []) @
                (case EndTime q of Some t \<Rightarrow> [(''$lte'', BTime t)] | None \<Rightarrow> [])))]
      else [])
   \<and> distinct (map fst (buildFilter q))"
proof -
  let ?c1 = "if ActorID q \<noteq> '''' then [(''actor.id'', BString (ActorID q))] else []"
  let ?c2 = "if ActorType q \<noteq> '''' then [(''actor.type'', BString (ActorType q))] else []"
  let ?c3 = "if SessionID q \<noteq> '''' then [(''actor.session_id'', BString (SessionID q))] else []"
  let ?c4 = "if 0 < length (Actions q) then [(''action'', BDoc [(''$in'', BStrings (Actions q))])]
             else []"
  let ?c5 = "if ResourceType q \<noteq> '''' then [(''resource.type'', BString (ResourceType q))] else []"
  let ?c6 = "if ResourceID q \<noteq> '''' then [(''resource.id'', BString (ResourceID q))] else []"
  let ?c7 = "case QSuccess q of Some b \<Rightarrow> [(''success'', BBool b)] | None \<Rightarrow> []"
  let ?td = "BDoc (case EndTime q of
      Some t \<Rightarrow> AList.update ''$lte'' (BTime t)
                 (case StartTime q of Some t \<Rightarrow> AList.update ''$gte'' (BTime t) [] | None \<Rightarrow> [])
    | None \<Rightarrow> (case StartTime q of Some t \<Rightarrow> AList.update ''$gte'' (BTime t) [] | None \<Rightarrow> []))"
  let ?c8 = "if StartTime q \<noteq> None \<or> EndTime q \<noteq> None then [(''timestamp'', ?td)] else []"
  define f1 where "f1 = (if ActorID q \<noteq> '''' then
      AList.update ''actor.id'' (BString (ActorID q)) [] else [])"
  define f2 where "f2 = (if ActorType q \<noteq> '''' then
      AList.update ''actor.type'' (BString (ActorType q)) f1 else f1)"
  define f3 where "f3 = (if SessionID q \<noteq> '''' then
      AList.update ''actor.session_id'' (BString (SessionID q)) f2 else f2)"
  define f4 where "f4 = (if 0 < length (Actions q) then
      AList.update ''action'' (BDoc [(''$in'', BStrings (Actions q))]) f3 else f3)"
  define f5 where "f5 = (if ResourceType q \<noteq> '''' then
      AList.update ''resource.type'' (BString (ResourceType q)) f4 else f4)"
  define f6 where "f6 = (if ResourceID q \<noteq> '''' then
      AList.update ''resource.id'' (BString (ResourceID q)) f5 else f5)"
  define f7 where "f7 = (case QSuccess q of
      Some b \<Rightarrow> AList.update ''success'' (BBool b) f6 | None \<Rightarrow> f6)"
  define f8 where "f8 = (if StartTime q \<noteq> None \<or> EndTime q \<noteq> None then
      AList.update ''timestamp'' ?td f7 else f7)"
  have run: "buildFilter q = f8"
    unfolding buildFilter_def Let_def f8_def f7_def f6_def f5_def f4_def f3_def f2_def f1_def
    by (rule refl)
  have s1: "f1 = ?c1"
    unfolding f1_def by simp
  have s2: "f2 = ?c1 @ ?c2"
    unfolding f2_def s1 by (rule update_if_fresh) (simp only: fresh_simps, simp)
  have s3: "f3 = (?c1 @ ?c2) @ ?c3"
    unfolding f3_def s2 by (rule update_if_fresh) (simp only: fresh_simps, simp)
  have s4: "f4 = ((?c1 @ ?c2) @ ?c3) @ ?c4"
    unfolding f4_def s3 by (rule update_if_fresh) (simp only: fresh_simps, simp)
  have s5: "f5 = (((?c1 @ ?c2) @ ?c3) @ ?c4) @ ?c5"
    unfolding f5_def s4 by (rule update_if_fresh) (simp only: fresh_simps, simp)
  have s6: "f6 = ((((?c1 @ ?c2) @ ?c3) @ ?c4) @ ?c5) @ ?c6"
    unfolding f6_def s5 by (rule update_if_fresh) (simp only: fresh_simps, simp)
  have s7: "f7 = (((((?c1 @ ?c2) @ ?c3) @ ?c4) @ ?c5) @ ?c6) @ ?c7"
    unfolding f7_def s6 by (rule update_case_fresh) (simp only: fresh_simps, simp)
  have s8: "f8 = ((((((?c1 @ ?c2) @ ?c3) @ ?c4) @ ?c5) @ ?c6) @ ?c7) @ ?c8"
    unfolding f8_def s7 by (rule update_if_fresh) (simp only: fresh_simps, simp)
  have d1: "distinct (map fst ?c1)"
    by simp
  have d2: "distinct (map fst (?c1 @ ?c2))"
    by (rule distinct_keys_if [OF d1]) (simp only: fresh_simps, simp)
  have d3: "distinct (map fst ((?c1 @ ?c2) @ ?c3))"
    by (rule distinct_keys_if [OF d2]) (simp only: fresh_simps, simp)
  have d4: "distinct (map fst (((?c1 @ ?c2) @ ?c3) @ ?c4))"
    by (rule distinct_keys_if [OF d3]) (simp only: fresh_simps, simp)
  have d5: "distinct (map fst ((((?c1 @ ?c2) @ ?c3) @ ?c4) @ ?c5))"
    by (rule distinct_keys_if [OF d4]) (simp only: fresh_simps, simp)
  have d6: "distinct (map fst (((((?c1 @ ?c2) @ ?c3) @ ?c4) @ ?c5) @ ?c6))"
    by (rule distinct_keys_if [OF d5]) (simp only: fresh_simps, simp)
  have d7: "distinct (map fst ((((((?c1 @ ?c2) @ ?c3) @ ?c4) @ ?c5) @ ?c6) @ ?c7))"
    by (rule distinct_keys_case [OF d6]) (simp only: fresh_simps, simp)
  have d8: "distinct (map fst (((((((?c1 @ ?c2) @ ?c3) @ ?c4) @ ?c5) @ ?c6) @ ?c7) @ ?c8))"
    by (rule distinct_keys_if [OF d7]) (simp only: fresh_simps, simp)
  have keys: "distinct (map fst (buildFilter q))"
    unfolding run s8 by (rule d8)
  have clauses: "buildFilter q =
     (if ActorID q \<noteq> '''' then [(''actor.id'', BString (ActorID q))] else []) @
     (if ActorType q \<noteq> '''' then [(''actor.type'', BString (ActorType q))] else []) @
     (if SessionID q \<noteq> '''' then [(''actor.session_id'', BString (SessionID q))] else []) @
     (if Actions q \<noteq> [] then [(''action'', BDoc [(''$in'', BStrings (Actions q))])] else []) @
     (if ResourceType q \<noteq> '''' then [(''resource.type'', BString (ResourceType q))] else []) @
     (if ResourceID q \<noteq> '''' then [(''resource.id'', BString (ResourceID q))] else []) @
     (case QSuccess q of Some b \<Rightarrow> [(''success'', BBool b)] | None \<Rightarrow> []) @
     (if StartTime q \<noteq> None \<or> EndTime q \<noteq> None then
        [(''timestamp'',
          BDoc ((case StartTime q of Some t \<Rightarrow> [(''$gte'', BTime t)] | None \<Rightarrow> []) @
                (case EndTime q of Some t \<Rightarrow> [(''$lte'', BTime t)] | None \<Rightarrow> [])))]
      else [])"
    unfolding run s8 timeFilter_list by (simp only: append_assoc length_greater_0_conv)
  from clauses keys show ?thesis
    by (rule conjI)
qed

text \<open>
  A query for the successful actions of \<open>u1\<close> between the instants 100 and 200:
  three clauses, the one on the timestamp with both bounds.
\<close>

theorem buildFilter_exact_clauses_witness:
  "buildFilter (empty_query\<lparr>ActorID := ''u1'', StartTime := Some 100, EndTime := Some 200,
       QSuccess := Some True\<rparr>)
     = [(''actor.id'', BString ''u1''), (''success'', BBool True),
        (''timestamp'', BDoc [(''$gte'', BTime 100), (''$lte'', BTime 200)])]"
  using buildFilter_exact_clauses
    [of "empty_query\<lparr>ActorID := ''u1'', StartTime := Some 100, EndTime := Some 200,
       QSuccess := Some True\<rparr>"]
  by (simp add: empty_query_def)

section \<open>Properties of the lookups by actor and by identifier\<close>

text \<open>
  C10. For a non-empty actor id (and a limit that is not negative, the only other
  check), \<^verbatim>\<open>GetActorHistory\<close> is the repository's \<^verbatim>\<open>FindByActor\<close> whatever the
  actor type is: nothing compares it with the enum. \<^verbatim>\<open>FindByActor\<close> then asks the
  store with a filter on the actor id alone when the actor type is empty, and with an
  added equality clause on the actor type, as given, when it is not.
\<close>

theorem GetActorHistory_passes_any_actor_type:
  assumes "actorID \<noteq> ''''" and "0 \<le> limit"
  shows "GetActorHistory (mongo_service rt r) ctx actorID actorType limit
           = mongo_FindByActor r ctx actorID actorType limit
       \<and> fst (mongo_FindByActor r ctx actorID actorType limit) =
           [EvFind
              (if actorType = '''' then [(''actor.id'', BString actorID)]
               else [(''actor.id'', BString actorID), (''actor.type'', BString actorType)])
              \<lparr>opt_Sort = [(''timestamp'', - 1)],
               opt_Limit = (if limit > 0 then Some limit else None), opt_Skip = None\<rparr>]"
proof -
  have a: "GetActorHistory (mongo_service rt r) ctx actorID actorType limit
      = mongo_FindByActor r ctx actorID actorType limit"
    using assms
    by (simp add: GetActorHistory_def mongo_service_def mongoRepository_methods_def)
  have b: "fst (mongo_FindByActor r ctx actorID actorType limit) =
      [EvFind
         (if actorType = '''' then [(''actor.id'', BString actorID)]
          else [(''actor.id'', BString actorID), (''actor.type'', BString actorType)])
         \<lparr>opt_Sort = [(''timestamp'', - 1)],
          opt_Limit = (if limit > 0 then Some limit else None), opt_Skip = None\<rparr>]"
    by (simp add: mongo_FindByActor_def Let_def split: sum.splits)
  from a b show ?thesis by simp
qed

text \<open>
  The actor type \<open>robot\<close> is outside the enum; the service passes it on and the
  store is asked for the actor \<open>u1\<close> of type \<open>robot\<close>.
\<close>

theorem GetActorHistory_passes_any_actor_type_witness:
  "GetActorHistory (mongo_service runtime0
        \<lparr>collection = mem_collection [login_entry], config = DefaultConfig\<rparr>)
      Background ''u1'' ''robot'' 10 =
     ([EvFind [(''actor.id'', BString ''u1''), (''actor.type'', BString ''robot'')]
         \<lparr>opt_Sort = [(''timestamp'', - 1)], opt_Limit = Some 10, opt_Skip = None\<rparr>],
      Inr [])
   \<and> GetActorHistory (mongo_service runtime0
        \<lparr>collection = mem_collection [login_entry], config = DefaultConfig\<rparr>)
      Background ''u1'' '''' 10 =
     ([EvFind [(''actor.id'', BString ''u1'')]
         \<lparr>opt_Sort = [(''timestamp'', - 1)], opt_Limit = Some 10, opt_Skip = None\<rparr>],
      Inr [login_entry])"
proof -
  let ?r = "\<lparr>collection = mem_collection [login_entry], config = DefaultConfig\<rparr>"
  have ne: "''u1'' \<noteq> ''''" and lim: "(0::int) \<le> 10"
    by simp_all
  have m1: "\<not> doc_matches [(''actor.id'', BString ''u1''), (''actor.type'', BString ''robot'')]
      login_entry"
    by (simp add: doc_matches_def field_value_def login_entry_fields)
  have m2: "doc_matches [(''actor.id'', BString ''u1'')] login_entry"
    by (simp add: doc_matches_def field_value_def login_entry_fields)
  have r1: "mongo_FindByActor ?r Background ''u1'' ''robot'' 10 =
     ([EvFind [(''actor.id'', BString ''u1''), (''actor.type'', BString ''robot'')]
         \<lparr>opt_Sort = [(''timestamp'', - 1)], opt_Limit = Some 10, opt_Skip = None\<rparr>],
      Inr [])"
    by (simp add: mongo_FindByActor_def Let_def mem_collection_def Background_def m1
        store_limit_def store_skip_def store_sort_def newest_first_def)
  have r2: "mongo_FindByActor ?r Background ''u1'' '''' 10 =
     ([EvFind [(''actor.id'', BString ''u1'')]
         \<lparr>opt_Sort = [(''timestamp'', - 1)], opt_Limit = Some 10, opt_Skip = None\<rparr>],
      Inr [login_entry])"
    by (simp add: mongo_FindByActor_def Let_def mem_collection_def Background_def m2
        store_limit_def store_skip_def store_sort_def newest_first_def)
  show ?thesis
    using GetActorHistory_passes_any_actor_type [OF ne lim, of runtime0 ?r Background "''robot''"]
      GetActorHistory_passes_any_actor_type [OF ne lim, of runtime0 ?r Background "''''"]
    by (simp only: r1 r2 simp_thms)
qed

lemma hex_digits: "map char_of [48, 49, 50, 51, 52, 53, 54, 55, 56, 57 :: nat] = ''0123456789''"
  by (simp add: char_of_def bit_0)

lemma hex_lower: "map char_of [97, 98, 99, 100, 101, 102 :: nat] = ''abcdef''"
  by (simp add: char_of_def bit_0)

lemma hex_upper: "map char_of [65, 66, 67, 68, 69, 70 :: nat] = ''ABCDEF''"
  by (simp add: char_of_def bit_0)

lemma hex_range_digits: "48 \<le> n \<Longrightarrow> n \<le> 57 \<Longrightarrow> (n::nat) \<in> set [48, 49, 50, 51, 52, 53, 54, 55, 56, 57]"
  by (simp only: list.set insert_iff empty_iff) arith

lemma hex_range_lower: "97 \<le> n \<Longrightarrow> n \<le> 102 \<Longrightarrow> (n::nat) \<in> set [97, 98, 99, 100, 101, 102]"
  by (simp only: list.set insert_iff empty_iff) arith

lemma hex_range_upper: "65 \<le> n \<Longrightarrow> n \<le> 70 \<Longrightarrow> (n::nat) \<in> set [65, 66, 67, 68, 69, 70]"
  by (simp only: list.set insert_iff empty_iff) arith

lemma hex_val_Some_hex: "hex_val c \<noteq> None \<Longrightarrow> is_hex_digit c"
proof -
  assume h: "hex_val c \<noteq> None"
  let ?n = "of_char c :: nat"
  have c: "char_of ?n = c" by simp
  from h consider "48 \<le> ?n \<and> ?n \<le> 57" | "97 \<le> ?n \<and> ?n \<le> 102" | "65 \<le> ?n \<and> ?n \<le> 70"
    unfolding hex_val_def Let_def by (auto split: if_splits)
  then have "c \<in> set (''0123456789'' @ ''abcdef'' @ ''ABCDEF'')"
  proof cases
    case 1
    then have "?n \<in> set [48, 49, 50, 51, 52, 53, 54, 55, 56, 57]" by (intro hex_range_digits) simp_all
    then have "char_of ?n \<in> set (map char_of [48, 49, 50, 51, 52, 53, 54, 55, 56, 57 :: nat])"
      unfolding set_map by (rule imageI)
    then show ?thesis unfolding c hex_digits set_append by blast
  next
    case 2
    then have "?n \<in> set [97, 98, 99, 100, 101, 102]" by (intro hex_range_lower) simp_all
    then have "char_of ?n \<in> set (map char_of [97, 98, 99, 100, 101, 102 :: nat])"
      unfolding set_map by (rule imageI)
    then show ?thesis unfolding c hex_lower set_append by blast
  next
    case 3
    then have "?n \<in> set [65, 66, 67, 68, 69, 70]" by (intro hex_range_upper) simp_all
    then have "char_of ?n \<in> set (map char_of [65, 66, 67, 68, 69, 70 :: nat])"
      unfolding set_map by (rule imageI)
    then show ?thesis unfolding c hex_upper set_append by blast
  qed
  then show ?thesis unfolding is_hex_digit_def by (simp only: append.simps)
qed

lemma hex_hex_val_Some: "is_hex_digit c \<Longrightarrow> hex_val c \<noteq> None"
  unfolding is_hex_digit_def by (auto simp: hex_val_def)

lemma hex_val_None: "hex_val c = None \<longleftrightarrow> \<not> is_hex_digit c"
  using hex_val_Some_hex [of c] hex_hex_val_Some [of c] by blast

lemma hex_decode_None:
  "hex_decode s = None \<longleftrightarrow> odd (length s) \<or> \<not> list_all is_hex_digit s"
proof (induction s rule: hex_decode.induct)
  case 1
  show ?case by simp
next
  case (2 c)
  show ?case by simp
next
  case (3 c1 c2 cs)
  then show ?case
    using hex_val_None [of c1] hex_val_None [of c2]
    by (auto split: option.splits)
qed

lemma ObjectIDFromHex_error:
  "(\<exists>err. ObjectIDFromHex s = Inl err) \<longleftrightarrow> \<not> (length s = 24 \<and> list_all is_hex_digit s)"
proof (cases "length s = 24")
  case True
  then have "even (length s)" by simp
  then show ?thesis
    using True hex_decode_None [of s] by (auto simp: ObjectIDFromHex_def split: option.splits)
next
  case False
  then show ?thesis by (simp add: ObjectIDFromHex_def)
qed

text \<open>
  C9. An id that is not 24 hexadecimal characters makes \<^verbatim>\<open>FindByID\<close> return an
  "invalid ID format" error without asking the store, and \<^verbatim>\<open>GetByID\<close> returns the
  same error when the id is not empty; the result is an error, not the not-found
  result \<^verbatim>\<open>(nil, nil)\<close>.
\<close>

theorem FindByID_malformed_id_is_an_error:
  assumes "\<not> (length id' = 24 \<and> list_all is_hex_digit id')"
  shows "\<exists>err. mongo_FindByID r ctx id' = ([], Inl (ErrWrap ''invalid ID format'' err))
           \<and> (id' \<noteq> '''' \<longrightarrow>
                GetByID (mongo_service rt r) ctx id'
                  = ([], Inl (ErrWrap ''invalid ID format'' err)))
           \<and> snd (mongo_FindByID r ctx id') \<noteq> Inr None"
proof -
  from assms obtain err where err: "ObjectIDFromHex id' = Inl err"
    using ObjectIDFromHex_error [of id'] by blast
  have a: "mongo_FindByID r ctx id' = ([], Inl (ErrWrap ''invalid ID format'' err))"
    by (simp add: mongo_FindByID_def err)
  have b: "GetByID (mongo_service rt r) ctx id' = mongo_FindByID r ctx id'" if "id' \<noteq> ''''"
    using that by (simp add: GetByID_def mongo_service_def mongoRepository_methods_def)
  from a b show ?thesis by auto
qed

text \<open>
  An id that is too short, and an id of 24 characters that are not all hexadecimal
  digits, over a store that holds the login entry.
\<close>

theorem FindByID_malformed_id_witness:
  "GetByID (mongo_service runtime0
        \<lparr>collection = mem_collection [login_entry], config = DefaultConfig\<rparr>)
      Background ''u1'' = ([], Inl (ErrWrap ''invalid ID format'' ErrInvalidHex))
   \<and> snd (mongo_FindByID \<lparr>collection = mem_collection [login_entry], config = DefaultConfig\<rparr>
            Background ''654f1a2b3c4d5e6f708192zz'') \<noteq> Inr None"
proof -
  let ?r = "\<lparr>collection = mem_collection [login_entry], config = DefaultConfig\<rparr>"
  have short: "\<not> (length ''u1'' = 24 \<and> list_all is_hex_digit ''u1'')"
    by simp
  have nothex: "\<not> (length ''654f1a2b3c4d5e6f708192zz'' = 24
      \<and> list_all is_hex_digit ''654f1a2b3c4d5e6f708192zz'')"
    by (simp add: is_hex_digit_def)
  have e: "mongo_FindByID ?r Background ''u1'' = ([], Inl (ErrWrap ''invalid ID format'' ErrInvalidHex))"
    by (simp add: mongo_FindByID_def ObjectIDFromHex_def)
  from FindByID_malformed_id_is_an_error [OF short, of ?r Background runtime0]
  have "GetByID (mongo_service runtime0 ?r) Background ''u1'' = mongo_FindByID ?r Background ''u1''"
    by auto
  with e have a: "GetByID (mongo_service runtime0 ?r) Background ''u1''
      = ([], Inl (ErrWrap ''invalid ID format'' ErrInvalidHex))"
    by simp
  from FindByID_malformed_id_is_an_error [OF nothex, of ?r Background runtime0]
  have b: "snd (mongo_FindByID ?r Background ''654f1a2b3c4d5e6f708192zz'') \<noteq> Inr None"
    by blast
  from a b show ?thesis by simp
qed

section \<open>Not found is not an error\<close>

lemma id_filter_matches:
  "doc_matches [(''_id'', BObjectID oid)] d \<longleftrightarrow> ID d = oid \<and> \<not> ObjectID_IsZero (ID d)"
  by (auto simp: doc_matches_def field_value_def)

lemma no_id_no_match:
  "\<forall>d \<in> set ds. ID d \<noteq> oid \<Longrightarrow> filter (doc_matches [(''_id'', BObjectID oid)]) ds = []"
  by (simp add: id_filter_matches filter_empty_conv)

lemma oid2_hex: "ObjectIDFromHex ''654f1a2b3c4d5e6f708192a4'' = Inr oid2"
  by (simp add: ObjectIDFromHex_def hex_val_def oid2_def)

text \<open>
  C7. For an identifier that parses: when the driver answers \<^verbatim>\<open>FindOne\<close> with
  \<^verbatim>\<open>ErrNoDocuments\<close>, \<^verbatim>\<open>FindByID\<close> returns \<^verbatim>\<open>(nil, nil)\<close>; when the driver
  fails with any other error, \<^verbatim>\<open>FindByID\<close> returns that error, wrapped, which is a
  different result. Over a store that keeps its contract, on a live context, an
  identifier that no stored entry has gives \<^verbatim>\<open>(nil, nil)\<close>.
\<close>

theorem FindByID_absent_is_nil_nil:
  assumes "ObjectIDFromHex id' = Inr oid"
  shows "(FindOne (collection r) ctx [(''_id'', BObjectID oid)] = Inl ErrNoDocuments \<longrightarrow>
            mongo_FindByID r ctx id' = ([EvFindOne [(''_id'', BObjectID oid)]], Inr None))
       \<and> (\<forall>err. FindOne (collection r) ctx [(''_id'', BObjectID oid)] = Inl err \<and>
              err \<noteq> ErrNoDocuments \<longrightarrow>
            mongo_FindByID r ctx id'
              = ([EvFindOne [(''_id'', BObjectID oid)]],
                 Inl (ErrWrap ''failed to find audit entry'' err)))
       \<and> (collection r = mem_collection ds \<and> ctx_Err ctx = None \<and>
            (\<forall>d \<in> set ds. ID d \<noteq> oid) \<longrightarrow>
            mongo_FindByID r ctx id' = ([EvFindOne [(''_id'', BObjectID oid)]], Inr None)
            \<and> GetByID (mongo_service rt r) ctx id'
                = ([EvFindOne [(''_id'', BObjectID oid)]], Inr None))"
proof -
  have absent: "mongo_FindByID r ctx id' = ([EvFindOne [(''_id'', BObjectID oid)]], Inr None)"
    if "FindOne (collection r) ctx [(''_id'', BObjectID oid)] = Inl ErrNoDocuments"
    using that by (simp add: mongo_FindByID_def assms)
  have failed: "mongo_FindByID r ctx id'
      = ([EvFindOne [(''_id'', BObjectID oid)]], Inl (ErrWrap ''failed to find audit entry'' err))"
    if "FindOne (collection r) ctx [(''_id'', BObjectID oid)] = Inl err" "err \<noteq> ErrNoDocuments"
    for err
    using that by (simp add: mongo_FindByID_def assms)
  have store: "FindOne (collection r) ctx [(''_id'', BObjectID oid)] = Inl ErrNoDocuments"
    if "collection r = mem_collection ds" "ctx_Err ctx = None" "\<forall>d \<in> set ds. ID d \<noteq> oid"
    using that by (simp add: mem_collection_def no_id_no_match)
  have nonempty: "id' \<noteq> ''''"
    using assms by (auto simp: ObjectIDFromHex_def)
  have svc: "GetByID (mongo_service rt r) ctx id' = mongo_FindByID r ctx id'"
    using nonempty by (simp add: GetByID_def mongo_service_def mongoRepository_methods_def)
  show ?thesis
    using absent failed store svc by auto
qed

text \<open>
  The store holds the login entry only. Looking up the identifier of the update
  entry gives \<^verbatim>\<open>(nil, nil)\<close>; over a store whose reads fail, the same lookup is an
  error.
\<close>

theorem FindByID_absent_witness:
  "mongo_FindByID \<lparr>collection = mem_collection [login_entry], config = DefaultConfig\<rparr>
       Background ''654f1a2b3c4d5e6f708192a4''
     = ([EvFindOne [(''_id'', BObjectID oid2)]], Inr None)
   \<and> mongo_FindByID \<lparr>collection = broken_collection, config = DefaultConfig\<rparr>
       Background ''654f1a2b3c4d5e6f708192a4''
     = ([EvFindOne [(''_id'', BObjectID oid2)]],
        Inl (ErrWrap ''failed to find audit entry'' (ErrNew ''connection refused'')))"
proof -
  let ?r = "\<lparr>collection = mem_collection [login_entry], config = DefaultConfig\<rparr>"
  let ?b = "\<lparr>collection = broken_collection, config = DefaultConfig\<rparr>"
  have store: "collection ?r = mem_collection [login_entry] \<and> ctx_Err Background = None \<and>
      (\<forall>d \<in> set [login_entry]. ID d \<noteq> oid2)"
    using oid1_oid2 by (simp add: Background_def login_entry_fields)
  have broken: "FindOne (collection ?b) Background [(''_id'', BObjectID oid2)]
        = Inl (ErrNew ''connection refused'')
      \<and> ErrNew ''connection refused'' \<noteq> ErrNoDocuments"
    by (simp add: broken_collection_def)
  have a: "mongo_FindByID ?r Background ''654f1a2b3c4d5e6f708192a4''
      = ([EvFindOne [(''_id'', BObjectID oid2)]], Inr None)"
    using FindByID_absent_is_nil_nil [OF oid2_hex, of ?r Background "[login_entry]" runtime0] store
    by blast
  have b: "mongo_FindByID ?b Background ''654f1a2b3c4d5e6f708192a4''
      = ([EvFindOne [(''_id'', BObjectID oid2)]],
         Inl (ErrWrap ''failed to find audit entry'' (ErrNew ''connection refused'')))"
    using FindByID_absent_is_nil_nil [OF oid2_hex, of ?b Background "[]" runtime0] broken
    by blast
  from a b show ?thesis by simp
qed

section \<open>Properties of FindByQuery\<close>

lemma newest_first_sorted:
  "sorted_wrt (\<lambda>a b. Timestamp b \<le> Timestamp a) (newest_first xs)"
proof -
  have "sorted (map (\<lambda>d. - Timestamp d) (sort_key (\<lambda>d. - Timestamp d) xs))"
    by (rule sorted_sort_key)
  then show ?thesis
    by (simp add: newest_first_def sorted_map)
qed

lemma newest_first_length: "length (newest_first xs) = length xs"
  by (simp add: newest_first_def)

lemma newest_first_set: "set (newest_first xs) = set xs"
  by (simp add: newest_first_def)

lemma mem_Find_page:
  "ctx_Err ctx = None \<Longrightarrow>
   Find (mem_collection ds) ctx flt
       \<lparr>opt_Sort = [(''timestamp'', - 1)], opt_Limit = lim, opt_Skip = sk\<rparr>
     = Inr (Inr (store_limit lim (store_skip sk (newest_first (filter (doc_matches flt) ds)))))"
  by (simp add: mem_collection_def store_sort_def)

lemma mem_Count:
  "ctx_Err ctx = None \<Longrightarrow>
   CountDocuments (mem_collection ds) ctx flt = Inr (int (length (filter (doc_matches flt) ds)))"
  by (simp add: mem_collection_def)

lemma wrap_int64_in_range:
  assumes "- (2 ^ 63) \<le> i" and "i < 2 ^ 63"
  shows "wrap_int64 i = i"
proof -
  have "(i + 2 ^ 63) mod 2 ^ 64 = i + 2 ^ 63"
    by (rule mod_pos_pos_trivial) (use assms in simp_all)
  then show ?thesis
    by (simp add: wrap_int64_def)
qed

lemma store_limit_length: "length (store_limit lim xs) \<le> length xs"
  by (simp add: store_limit_def split: option.splits)

lemma store_skip_length:
  "length (store_skip (if 0 < off then Some off else None) xs)
     = (if 0 < off then length xs - nat off else length xs)"
  by (simp add: store_skip_def)

lemma page_sum_in_range:
  assumes lo: "- (2 ^ 63) \<le> off" and hi: "off < 2 ^ 63"
    and len: "int (length xs) < 2 ^ 63"
  shows "- (2 ^ 63) \<le> off
           + int (length (store_limit lim (store_skip (if 0 < off then Some off else None) xs)))
       \<and> off + int (length (store_limit lim (store_skip (if 0 < off then Some off else None) xs)))
           < 2 ^ 63"
proof -
  let ?n = "length (store_limit lim (store_skip (if 0 < off then Some off else None) xs))"
  have n: "?n \<le> (if 0 < off then length xs - nat off else length xs)"
    using store_limit_length [of lim "store_skip (if 0 < off then Some off else None) xs"]
    by (simp only: store_skip_length)
  show ?thesis
  proof (cases "0 < off")
    case True
    with n have le: "?n \<le> length xs - nat off" by simp
    show ?thesis
    proof (cases "nat off \<le> length xs")
      case True
      with le \<open>0 < off\<close> have "off + int ?n \<le> int (length xs)" by linarith
      with len lo show ?thesis by linarith
    next
      case False
      with le have "?n = 0" by simp
      with lo hi show ?thesis by simp
    qed
  next
    case False
    with n have "?n \<le> length xs" by simp
    with False lo len show ?thesis by linarith
  qed
qed

lemma mongo_FindByQuery_mem:
  assumes "collection r = mem_collection ds" and "ctx_Err ctx = None"
  shows "snd (mongo_FindByQuery r ctx q) =
     Inr \<lparr>Entries =
            store_limit (if Limit q > 0 then Some (Limit q) else None)
              (store_skip (if Offset q > 0 then Some (Offset q) else None)
                (newest_first (filter (doc_matches (buildFilter q)) ds))),
          Total = int (length (filter (doc_matches (buildFilter q)) ds)),
          HasMore =
            (Limit q > 0 \<and>
             wrap_int64 (Offset q + int (length
               (store_limit (if Limit q > 0 then Some (Limit q) else None)
                 (store_skip (if Offset q > 0 then Some (Offset q) else None)
                   (newest_first (filter (doc_matches (buildFilter q)) ds))))))
               < int (length (filter (doc_matches (buildFilter q)) ds)))\<rparr>"
  using assms by (simp add: mongo_FindByQuery_def Let_def mem_Count mem_Find_page)

text \<open>
  The sum behind \<^verbatim>\<open>HasMore\<close> does wrap: over a store that answers with one entry
  whatever the skip, the offset \<open>2 ^ 63 - 1\<close> and a limit of 1 give a sum of
  \<open>- (2 ^ 63)\<close>, which is less than the total 1.
\<close>

lemma FindByQuery_hasMore_wraps:
  "snd (mongo_FindByQuery \<lparr>collection = stubborn_collection, config = DefaultConfig\<rparr> Background
          (empty_query\<lparr>Limit := 1, Offset := 2 ^ 63 - 1\<rparr>))
     = Inr \<lparr>Entries = [login_entry], Total = 1, HasMore = True\<rparr>"
  by (simp add: mongo_FindByQuery_def Let_def stubborn_collection_def empty_query_def
      wrap_int64_def)

text \<open>
  C4 (as the code has it). Over a store that keeps its contract, on a live context,
  let \<open>ms\<close> be the matches of the query's filter, newest first. \<^verbatim>\<open>FindByQuery\<close>
  returns \<^verbatim>\<open>Total\<close> = the number of matches, whatever limit and offset are. The
  offset is applied whenever it is positive, with or without a limit, and the limit
  whenever it is positive: with \<^verbatim>\<open>Limit = 0\<close> the entries are the matches from
  position \<^verbatim>\<open>Offset\<close> on (all of them when \<^verbatim>\<open>Offset = 0\<close>); with
  \<^verbatim>\<open>Limit = L > 0\<close> and \<^verbatim>\<open>Offset = O \<ge> 0\<close> they are the matches at positions
  \<open>[O, O + L)\<close>. The entries are in newest-first order. \<^verbatim>\<open>HasMore\<close> is true
  exactly when the limit is positive and \<^verbatim>\<open>Offset\<close> plus the number of returned
  entries, added in 64-bit arithmetic, is less than \<^verbatim>\<open>Total\<close>; for every offset of
  the 64-bit range, over a store whose number of documents is in that range too (the
  count is an \<^verbatim>\<open>int64\<close>), the sum does not wrap and is the exact one.
\<close>

theorem FindByQuery_total_page_hasMore:
  assumes "collection r = mem_collection ds" and "ctx_Err ctx = None"
    and "ms = newest_first (filter (doc_matches (buildFilter q)) ds)"
  shows "\<exists>res. snd (mongo_FindByQuery r ctx q) = Inr res
       \<and> Total res = int (length (filter (doc_matches (buildFilter q)) ds))
       \<and> Entries res =
           (let skipped = (if Offset q > 0 then drop (nat (Offset q)) ms else ms)
            in if Limit q > 0 then take (nat (Limit q)) skipped else skipped)
       \<and> (Limit q = 0 \<and> 0 \<le> Offset q \<longrightarrow> Entries res = drop (nat (Offset q)) ms)
       \<and> (Limit q = 0 \<and> Offset q = 0 \<longrightarrow> Entries res = ms)
       \<and> (0 < Limit q \<and> 0 \<le> Offset q \<longrightarrow>
            Entries res = take (nat (Limit q)) (drop (nat (Offset q)) ms))
       \<and> sorted_wrt (\<lambda>a b. Timestamp b \<le> Timestamp a) (Entries res)
       \<and> HasMore res =
           (0 < Limit q \<and> wrap_int64 (Offset q + int (length (Entries res))) < Total res)
       \<and> (- (2 ^ 63) \<le> Offset q \<and> Offset q < 2 ^ 63 \<and> int (length ds) < 2 ^ 63 \<longrightarrow>
            HasMore res = (0 < Limit q \<and> Offset q + int (length (Entries res)) < Total res))"
proof -
  let ?lim = "if Limit q > 0 then Some (Limit q) else None"
  let ?page = "store_limit ?lim (store_skip (if Offset q > 0 then Some (Offset q) else None) ms)"
  let ?total = "int (length (filter (doc_matches (buildFilter q)) ds))"
  let ?res = "\<lparr>Entries = ?page, Total = ?total,
      HasMore = (Limit q > 0 \<and> wrap_int64 (Offset q + int (length ?page)) < ?total)\<rparr>"
  have run: "snd (mongo_FindByQuery r ctx q) = Inr ?res"
    unfolding assms(3) by (rule mongo_FindByQuery_mem [OF assms(1,2)])
  have page: "?page =
      (let skipped = (if Offset q > 0 then drop (nat (Offset q)) ms else ms)
       in if Limit q > 0 then take (nat (Limit q)) skipped else skipped)"
    by (simp add: store_limit_def store_skip_def Let_def)
  have sorted_ms: "sorted_wrt (\<lambda>a b. Timestamp b \<le> Timestamp a) ms"
    unfolding assms(3) by (rule newest_first_sorted)
  have sorted_page: "sorted_wrt (\<lambda>a b. Timestamp b \<le> Timestamp a) ?page"
    unfolding page Let_def
    by (simp add: sorted_ms sorted_wrt_take sorted_wrt_drop)
  have c1: "Limit q = 0 \<and> 0 \<le> Offset q \<longrightarrow> ?page = drop (nat (Offset q)) ms"
    unfolding page Let_def by auto
  have c2: "Limit q = 0 \<and> Offset q = 0 \<longrightarrow> ?page = ms"
    unfolding page Let_def by auto
  have c3: "0 < Limit q \<and> 0 \<le> Offset q \<longrightarrow> ?page = take (nat (Limit q)) (drop (nat (Offset q)) ms)"
    unfolding page Let_def by auto
  have exact: "wrap_int64 (Offset q + int (length ?page)) = Offset q + int (length ?page)"
    if b: "- (2 ^ 63) \<le> Offset q \<and> Offset q < 2 ^ 63 \<and> int (length ds) < 2 ^ 63"
  proof -
    have "length ms \<le> length ds"
      unfolding assms(3) by (simp add: newest_first_length)
    with b have len: "int (length ms) < 2 ^ 63" by linarith
    from b have lo: "- (2 ^ 63) \<le> Offset q" and hi: "Offset q < 2 ^ 63" by simp_all
    from page_sum_in_range [OF lo hi len, of ?lim] show ?thesis
      by (intro wrap_int64_in_range) simp_all
  qed
  have h1: "HasMore ?res =
      (0 < Limit q \<and> wrap_int64 (Offset q + int (length (Entries ?res))) < Total ?res)"
    by simp
  have h2: "- (2 ^ 63) \<le> Offset q \<and> Offset q < 2 ^ 63 \<and> int (length ds) < 2 ^ 63 \<longrightarrow>
      HasMore ?res = (0 < Limit q \<and> Offset q + int (length (Entries ?res)) < Total ?res)"
    using exact by simp
  have e: "Total ?res = ?total" "Entries ?res = ?page"
    by simp_all
  have "Total ?res = ?total \<and> Entries ?res =
           (let skipped = (if Offset q > 0 then drop (nat (Offset q)) ms else ms)
            in if Limit q > 0 then take (nat (Limit q)) skipped else skipped)
       \<and> (Limit q = 0 \<and> 0 \<le> Offset q \<longrightarrow> Entries ?res = drop (nat (Offset q)) ms)
       \<and> (Limit q = 0 \<and> Offset q = 0 \<longrightarrow> Entries ?res = ms)
       \<and> (0 < Limit q \<and> 0 \<le> Offset q \<longrightarrow>
            Entries ?res = take (nat (Limit q)) (drop (nat (Offset q)) ms))
       \<and> sorted_wrt (\<lambda>a b. Timestamp b \<le> Timestamp a) (Entries ?res)
       \<and> HasMore ?res =
           (0 < Limit q \<and> wrap_int64 (Offset q + int (length (Entries ?res))) < Total ?res)
       \<and> (- (2 ^ 63) \<le> Offset q \<and> Offset q < 2 ^ 63 \<and> int (length ds) < 2 ^ 63 \<longrightarrow>
            HasMore ?res = (0 < Limit q \<and> Offset q + int (length (Entries ?res)) < Total ?res))"
    unfolding e using page c1 c2 c3 sorted_page h1 h2 unfolding e
    by (intro conjI) (simp_all only: simp_thms)
  with run show ?thesis by blast
qed

lemma all_by_u1:
  "filter (doc_matches [(''actor.id'', BString ''u1''),
        (''action'', BDoc [(''$in'', BStrings [''login'', ''update''])])])
     [login_entry, update_entry] = [login_entry, update_entry]"
  by (simp add: doc_matches_def field_value_def login_entry_fields update_entry_fields)

lemma newest_first_two: "newest_first [login_entry, update_entry] = [update_entry, login_entry]"
  by (simp add: newest_first_def login_entry_fields update_entry_fields)

text \<open>
  The scenario of the specification: the store holds the login and the later update
  of user \<open>u1\<close>. The query for \<open>u1\<close>'s logins and updates with limit 1 returns the
  update (the newest), a total of 2, and more to come.
\<close>

theorem FindByQuery_page_witness:
  "snd (mongo_FindByQuery
          \<lparr>collection = mem_collection [login_entry, update_entry], config = DefaultConfig\<rparr>
          Background
          (empty_query\<lparr>ActorID := ''u1'', Actions := [ActionLogin, ActionUpdate], Limit := 1\<rparr>))
     = Inr \<lparr>Entries = [update_entry], Total = 2, HasMore = True\<rparr>"
proof -
  let ?r = "\<lparr>collection = mem_collection [login_entry, update_entry], config = DefaultConfig\<rparr>"
  let ?q = "empty_query\<lparr>ActorID := ''u1'', Actions := [ActionLogin, ActionUpdate], Limit := 1\<rparr>"
  have flt: "buildFilter ?q = [(''actor.id'', BString ''u1''),
      (''action'', BDoc [(''$in'', BStrings [''login'', ''update''])])]"
    by (simp add: buildFilter_def Let_def empty_query_def enum_defs)
  have c: "collection ?r = mem_collection [login_entry, update_entry]"
    and live: "ctx_Err Background = None"
    by (simp_all add: Background_def)
  have ms: "[update_entry, login_entry]
      = newest_first (filter (doc_matches (buildFilter ?q)) [login_entry, update_entry])"
    unfolding flt all_by_u1 newest_first_two by (rule refl)
  have q: "Limit ?q = 1" "Offset ?q = 0"
    by (simp_all add: empty_query_def)
  have range: "- (2 ^ 63) \<le> Offset ?q \<and> Offset ?q < 2 ^ 63
      \<and> int (length [login_entry, update_entry]) < 2 ^ 63"
    unfolding q by simp
  from FindByQuery_total_page_hasMore [OF c live ms]
  obtain res where run: "snd (mongo_FindByQuery ?r Background ?q) = Inr res"
    and t: "Total res = int (length (filter (doc_matches (buildFilter ?q)) [login_entry, update_entry]))"
    and e: "0 < Limit ?q \<and> 0 \<le> Offset ?q \<longrightarrow>
        Entries res = take (nat (Limit ?q)) (drop (nat (Offset ?q)) [update_entry, login_entry])"
    and h: "- (2 ^ 63) \<le> Offset ?q \<and> Offset ?q < 2 ^ 63
        \<and> int (length [login_entry, update_entry]) < 2 ^ 63 \<longrightarrow>
        HasMore res = (0 < Limit ?q \<and> Offset ?q + int (length (Entries res)) < Total res)"
    by blast
  from t have t': "Total res = 2"
    unfolding flt all_by_u1 by simp
  from e have e': "Entries res = [update_entry]"
    unfolding q by simp
  from h range have "HasMore res = (0 < Limit ?q \<and> Offset ?q + int (length (Entries res)) < Total res)"
    by blast
  then have h': "HasMore res = True"
    unfolding q e' t' by simp
  have "res = \<lparr>Entries = [update_entry], Total = 2, HasMore = True\<rparr>"
    using t' e' h' by (cases res) simp
  with run show ?thesis by simp
qed

text \<open>
  C4 as the specification states it fails: with \<^verbatim>\<open>Limit = 0\<close> and \<^verbatim>\<open>Offset = 1\<close>
  and no other field set, over the same store, both entries match and the newest-first
  order is update, login; \<^verbatim>\<open>FindByQuery\<close> skips the first and returns the login
  alone, not every match from offset 0.
\<close>

theorem FindByQuery_limit_zero_counterexample:
  "Limit (empty_query\<lparr>Offset := 1\<rparr>) = 0
   \<and> newest_first (filter (doc_matches (buildFilter (empty_query\<lparr>Offset := 1\<rparr>)))
        [login_entry, update_entry]) = [update_entry, login_entry]
   \<and> snd (mongo_FindByQuery
          \<lparr>collection = mem_collection [login_entry, update_entry], config = DefaultConfig\<rparr>
          Background (empty_query\<lparr>Offset := 1\<rparr>))
     = Inr \<lparr>Entries = [login_entry], Total = 2, HasMore = False\<rparr>"
proof -
  let ?r = "\<lparr>collection = mem_collection [login_entry, update_entry], config = DefaultConfig\<rparr>"
  let ?q = "empty_query\<lparr>Offset := 1\<rparr>"
  have flt: "buildFilter ?q = []"
    by (simp add: buildFilter_def Let_def empty_query_def)
  have all: "filter (doc_matches []) [login_entry, update_entry] = [login_entry, update_entry]"
    by (simp add: doc_matches_def)
  have q: "Limit ?q = 0" "Offset ?q = 1"
    by (simp_all add: empty_query_def)
  have c: "collection ?r = mem_collection [login_entry, update_entry]"
    and live: "ctx_Err Background = None"
    by (simp_all add: Background_def)
  have run: "snd (mongo_FindByQuery ?r Background ?q)
      = Inr \<lparr>Entries = [login_entry], Total = 2, HasMore = False\<rparr>"
    unfolding mongo_FindByQuery_mem [OF c live] flt all newest_first_two q
    by (simp add: store_limit_def store_skip_def)
  show ?thesis
    unfolding flt all newest_first_two using q(1) run by simp
qed

end
